theory Spec2Isabelle
  imports Main
begin

section \<open>Storage shared by both server variants\<close>

text \<open>
  The repository holds two variants of the backend.  The unauthenticated one
  (second half of \<^verbatim>\<open>src/server.js\<close>, schema in \<^verbatim>\<open>src/database.js\<close>) works on the
  tables \<^verbatim>\<open>students\<close>, \<^verbatim>\<open>courses\<close>, \<^verbatim>\<open>enrollments\<close>; the authenticated one (first half
  of \<^verbatim>\<open>src/server.js\<close>, schema in the first half of \<^verbatim>\<open>src/unnamed/part_000\<close>) works on
  \<^verbatim>\<open>users\<close>, \<^verbatim>\<open>courses\<close>, \<^verbatim>\<open>enrollments\<close>.

  A table is the list of its rows, in insertion order; a table that has not been
  created is \<open>None\<close>.  Every SQL statement of the source is a function from the
  database to a result and the database after the statement.  A statement that
  raises leaves the tables as they were.

  Requests are handled one at a time: what two handlers do when their statements
  interleave is outside this model.  A handler reads the clock once (\<open>now\<close>, for the
  column defaults \<^verbatim>\<open>CURRENT_DATE\<close> and \<^verbatim>\<open>CURRENT_TIMESTAMP\<close>).  The fields of a request
  body are strings or numbers, or absent.  A string is the list of the bytes it has on
  the wire to the database (UTF-8).  Strings are taken to fit the width of their
  \<^verbatim>\<open>VARCHAR\<close> column.
\<close>

datatype db_error =
    ConnectionFailure
  | UndefinedTable
  | UniqueViolation
  | ForeignKeyViolation
  | NumericValueOutOfRange
  | InvalidTextRepresentation
  | InvalidByteSequence
  | SequenceGeneratorLimitExceeded

text \<open>PostgreSQL's \<^verbatim>\<open>INTEGER\<close> is 32 bits wide and raises on overflow (it never wraps).\<close>

definition int4_ok :: "int \<Rightarrow> bool" where
  "int4_ok x = (- 2147483648 \<le> x \<and> x \<le> 2147483647)"

text \<open>
  A text parameter is refused by PostgreSQL (database encoding UTF8) unless it is
  well-formed UTF-8 without a zero byte.  \<open>utf8_from k lo hi\<close> reads a string that still
  owes \<open>k\<close> continuation bytes, the next of them between \<open>lo\<close> and \<open>hi\<close>.
\<close>

fun utf8_from :: "nat \<Rightarrow> nat \<Rightarrow> nat \<Rightarrow> string \<Rightarrow> bool" where
  "utf8_from k lo hi [] = (k = 0)"
| "utf8_from k lo hi (c # cs) =
     (let x = (of_char c :: nat)
      in if k > 0 then lo \<le> x \<and> x \<le> hi \<and> utf8_from (k - 1) 128 191 cs
         else if x = 0 then False
         else if x < 128 then utf8_from 0 128 191 cs
         else if 194 \<le> x \<and> x \<le> 223 then utf8_from 1 128 191 cs
         else if x = 224 then utf8_from 2 160 191 cs
         else if (225 \<le> x \<and> x \<le> 236) \<or> x = 238 \<or> x = 239 then utf8_from 2 128 191 cs
         else if x = 237 then utf8_from 2 128 159 cs
         else if x = 240 then utf8_from 3 144 191 cs
         else if 241 \<le> x \<and> x \<le> 243 then utf8_from 3 128 191 cs
         else if x = 244 then utf8_from 3 128 143 cs
         else False)"

definition pg_text_ok :: "string \<Rightarrow> bool" where
  "pg_text_ok v = utf8_from 0 128 191 v"

text \<open>
  \<^verbatim>\<open>db.query\<close>: the \<open>n\<close>-th query of a handler.  \<open>fault = Some n\<close> makes exactly
  that query reject before it reaches the server (a lost connection); \<open>fault = None\<close>
  is a run in which the backend stays reachable.
\<close>

definition query :: "nat option \<Rightarrow> nat \<Rightarrow> ('s \<Rightarrow> (db_error + 'r) \<times> 's) \<Rightarrow> 's \<Rightarrow> (db_error + 'r) \<times> 's" where
  "query fault n stmt s = (if fault = Some n then (Inl ConnectionFailure, s) else stmt s)"

text \<open>JSON values of the response bodies, and a response as status code and body.\<close>

datatype json =
    JNull
  | JBool bool
  | JNum int
  | JStr string
  | JObj "(string \<times> json) list"

type_synonym response = "nat \<times> json"

text \<open>JavaScript's \<^verbatim>\<open>!x\<close> on a body field that is absent or a string.\<close>

fun falsy :: "string option \<Rightarrow> bool" where
  "falsy None = True"
| "falsy (Some v) = (v = [])"

fun json_opt :: "string option \<Rightarrow> json" where
  "json_opt None = JNull"
| "json_opt (Some v) = JStr v"

section \<open>The unauthenticated variant: schema\<close>

record student =
  student_id :: string
  full_name :: string
  current_semester :: int
  email :: "string option"
  phone :: "string option"
  student_created_at :: nat

record course =
  course_code :: string
  course_name :: string
  description :: "string option"
  semester :: int
  credits :: int
  instructor :: string
  max_capacity :: int
  current_enrollment :: int
  course_created_at :: nat

record enrollment =
  enrollment_id :: int
  enr_student_id :: string
  enr_course_code :: string
  enrollment_date :: nat
  status :: string
  grade :: "string option"

text \<open>
  \<open>enrollment_id_seq\<close> is the sequence behind \<^verbatim>\<open>enrollment_id SERIAL\<close>: the last
  value it handed out.
\<close>

record db =
  students :: "student list option"
  courses :: "course list option"
  enrollments :: "enrollment list option"
  enrollment_id_seq :: int

section \<open>The unauthenticated variant: the statements of the handlers\<close>

text \<open>\<^verbatim>\<open>SELECT * FROM students WHERE student_id = $1\<close>\<close>

definition select_student :: "string \<Rightarrow> db \<Rightarrow> (db_error + student list) \<times> db" where
  "select_student sid s =
     (case students s of
        None \<Rightarrow> (Inl UndefinedTable, s)
      | Some ss \<Rightarrow>
          if \<not> pg_text_ok sid then (Inl InvalidByteSequence, s)
          else (Inr (filter (\<lambda>r. student_id r = sid) ss), s))"

text \<open>\<^verbatim>\<open>SELECT * FROM courses WHERE course_code = $1\<close>\<close>

definition select_course :: "string \<Rightarrow> db \<Rightarrow> (db_error + course list) \<times> db" where
  "select_course cc s =
     (case courses s of
        None \<Rightarrow> (Inl UndefinedTable, s)
      | Some cs \<Rightarrow>
          if \<not> pg_text_ok cc then (Inl InvalidByteSequence, s)
          else (Inr (filter (\<lambda>r. course_code r = cc) cs), s))"

text \<open>\<^verbatim>\<open>SELECT * FROM enrollments WHERE student_id = $1 AND course_code = $2\<close>\<close>

definition select_enrollment :: "string \<Rightarrow> string \<Rightarrow> db \<Rightarrow> (db_error + enrollment list) \<times> db" where
  "select_enrollment sid cc s =
     (case enrollments s of
        None \<Rightarrow> (Inl UndefinedTable, s)
      | Some es \<Rightarrow>
          if \<not> pg_text_ok sid \<or> \<not> pg_text_ok cc then (Inl InvalidByteSequence, s)
          else (Inr (filter (\<lambda>r. enr_student_id r = sid \<and> enr_course_code r = cc) es), s))"

text \<open>\<^verbatim>\<open>SELECT * FROM enrollments WHERE enrollment_id = $1\<close>; the parameter is the
  path segment, \<open>None\<close> when it is not an integer literal.  An integer that does not
  fit the column's type is refused.\<close>

definition select_enrollment_by_id :: "int option \<Rightarrow> db \<Rightarrow> (db_error + enrollment list) \<times> db" where
  "select_enrollment_by_id ido s =
     (case enrollments s of
        None \<Rightarrow> (Inl UndefinedTable, s)
      | Some es \<Rightarrow>
          (case ido of
             None \<Rightarrow> (Inl InvalidTextRepresentation, s)
           | Some i \<Rightarrow>
               if \<not> int4_ok i then (Inl NumericValueOutOfRange, s)
               else (Inr (filter (\<lambda>r. enrollment_id r = i) es), s)))"

text \<open>
  \<^verbatim>\<open>INSERT INTO enrollments (student_id, course_code, status) VALUES ($1, $2, 'Active')
  RETURNING *\<close>.  The new id is the next value of the sequence, which stays advanced
  when a constraint of the table (primary key, the two foreign keys,
  \<^verbatim>\<open>unique_enrollment\<close>) rejects the row.  The sequence of a \<^verbatim>\<open>SERIAL\<close> column ends with
  the type \<^verbatim>\<open>INTEGER\<close>: past its last value \<^verbatim>\<open>nextval\<close> raises and hands out nothing.
\<close>

definition new_enrollment :: "nat \<Rightarrow> string \<Rightarrow> string \<Rightarrow> db \<Rightarrow> enrollment" where
  "new_enrollment now sid cc s =
     \<lparr>enrollment_id = enrollment_id_seq s + 1, enr_student_id = sid, enr_course_code = cc,
      enrollment_date = now, status = ''Active'', grade = None\<rparr>"

definition insert_enrollment :: "nat \<Rightarrow> string \<Rightarrow> string \<Rightarrow> db \<Rightarrow> (db_error + enrollment list) \<times> db" where
  "insert_enrollment now sid cc s =
     (case enrollments s of
        None \<Rightarrow> (Inl UndefinedTable, s)
      | Some es \<Rightarrow>
          (let row = new_enrollment now sid cc s;
               s1 = s\<lparr>enrollment_id_seq := enrollment_id row\<rparr>
           in if \<not> pg_text_ok sid \<or> \<not> pg_text_ok cc then (Inl InvalidByteSequence, s)
              else if \<not> int4_ok (enrollment_id row) then (Inl SequenceGeneratorLimitExceeded, s)
              else if list_ex (\<lambda>r. enrollment_id r = enrollment_id row) es then (Inl UniqueViolation, s1)
              else if list_ex (\<lambda>r. enr_student_id r = sid \<and> enr_course_code r = cc) es
                then (Inl UniqueViolation, s1)
              else if \<not> list_ex (\<lambda>r. student_id r = sid) (case students s of None \<Rightarrow> [] | Some ss \<Rightarrow> ss)
                then (Inl ForeignKeyViolation, s1)
              else if \<not> list_ex (\<lambda>r. course_code r = cc) (case courses s of None \<Rightarrow> [] | Some cs \<Rightarrow> cs)
                then (Inl ForeignKeyViolation, s1)
              else (Inr [row], s1\<lparr>enrollments := Some (es @ [row])\<rparr>)))"

text \<open>
  \<^verbatim>\<open>UPDATE courses SET current_enrollment = current_enrollment + d WHERE course_code = $1\<close>
  with \<open>d = 1\<close> on enrolling and \<open>d = - 1\<close> on dropping.
\<close>

definition bump :: "int \<Rightarrow> string \<Rightarrow> course list \<Rightarrow> course list" where
  "bump d cc cs =
     map (\<lambda>r. if course_code r = cc then r\<lparr>current_enrollment := current_enrollment r + d\<rparr>
               else r) cs"

definition update_current_enrollment :: "int \<Rightarrow> string \<Rightarrow> db \<Rightarrow> (db_error + unit) \<times> db" where
  "update_current_enrollment d cc s =
     (case courses s of
        None \<Rightarrow> (Inl UndefinedTable, s)
      | Some cs \<Rightarrow>
          if \<not> pg_text_ok cc then (Inl InvalidByteSequence, s)
          else if list_ex (\<lambda>r. course_code r = cc \<and> \<not> int4_ok (current_enrollment r + d)) cs
          then (Inl NumericValueOutOfRange, s)
          else (Inr (), s\<lparr>courses := Some (bump d cc cs)\<rparr>))"

text \<open>\<^verbatim>\<open>UPDATE enrollments SET status = $1 WHERE enrollment_id = $2 RETURNING *\<close>\<close>

definition set_status :: "string \<Rightarrow> int \<Rightarrow> enrollment list \<Rightarrow> enrollment list" where
  "set_status st i es = map (\<lambda>r. if enrollment_id r = i then r\<lparr>status := st\<rparr> else r) es"

definition update_status :: "string \<Rightarrow> int option \<Rightarrow> db \<Rightarrow> (db_error + enrollment list) \<times> db" where
  "update_status st ido s =
     (case enrollments s of
        None \<Rightarrow> (Inl UndefinedTable, s)
      | Some es \<Rightarrow>
          (case ido of
             None \<Rightarrow> (Inl InvalidTextRepresentation, s)
           | Some i \<Rightarrow>
               if \<not> pg_text_ok st then (Inl InvalidByteSequence, s)
               else if \<not> int4_ok i then (Inl NumericValueOutOfRange, s)
               else (Inr (filter (\<lambda>r. enrollment_id r = i) (set_status st i es)),
                     s\<lparr>enrollments := Some (set_status st i es)\<rparr>)))"

section \<open>The unauthenticated variant: the enrollment handlers\<close>

definition enrollment_json :: "enrollment \<Rightarrow> json" where
  "enrollment_json r =
     JObj [(''enrollment_id'', JNum (enrollment_id r)),
           (''student_id'', JStr (enr_student_id r)),
           (''course_code'', JStr (enr_course_code r)),
           (''enrollment_date'', JNum (int (enrollment_date r))),
           (''status'', JStr (status r)),
           (''grade'', json_opt (grade r))]"

text \<open>\<^verbatim>\<open>result.rows[0]\<close> in a response body: an absent element is left out by
  \<^verbatim>\<open>JSON.stringify\<close>.\<close>

fun first_row_field :: "string \<Rightarrow> ('a \<Rightarrow> json) \<Rightarrow> 'a list \<Rightarrow> (string \<times> json) list" where
  "first_row_field k f [] = []"
| "first_row_field k f (r # rs) = [(k, f r)]"

definition failure :: "nat \<Rightarrow> string \<Rightarrow> response" where
  "failure code msg = (code, JObj [(''success'', JBool False), (''message'', JStr msg)])"

record enroll_body =
  body_student_id :: "string option"
  body_course_code :: "string option"

text \<open>\<^verbatim>\<open>app.post('/api/enrollments', ...)\<close> of the unauthenticated variant.\<close>

definition post_enrollments :: "nat option \<Rightarrow> nat \<Rightarrow> enroll_body \<Rightarrow> db \<Rightarrow> response \<times> db" where
  "post_enrollments fault now b s =
     (if falsy (body_student_id b) \<or> falsy (body_course_code b)
      then (failure 400 ''Student ID and Course Code are required'', s)
      else
        (let sid = (case body_student_id b of None \<Rightarrow> [] | Some v \<Rightarrow> v);
             cc = (case body_course_code b of None \<Rightarrow> [] | Some v \<Rightarrow> v)
         in (case query fault 0 (select_student sid) s of
               (Inl e, s0) \<Rightarrow> (failure 500 ''Error creating enrollment'', s0)
             | (Inr studentRows, s0) \<Rightarrow>
            (if length studentRows = 0 then (failure 404 ''Student not found'', s0)
             else
            (case query fault 1 (select_course cc) s0 of
               (Inl e, s1) \<Rightarrow> (failure 500 ''Error creating enrollment'', s1)
             | (Inr courseRows, s1) \<Rightarrow>
            (if length courseRows = 0 then (failure 404 ''Course not found'', s1)
             else
            (case query fault 2 (select_enrollment sid cc) s1 of
               (Inl e, s2) \<Rightarrow> (failure 500 ''Error creating enrollment'', s2)
             | (Inr existingRows, s2) \<Rightarrow>
            (if length existingRows > 0
             then (failure 400 ''Already enrolled in this course'', s2)
             else
            (case query fault 3 (insert_enrollment now sid cc) s2 of
               (Inl e, s3) \<Rightarrow> (failure 500 ''Error creating enrollment'', s3)
             | (Inr resultRows, s3) \<Rightarrow>
            (case query fault 4 (update_current_enrollment 1 cc) s3 of
               (Inl e, s4) \<Rightarrow> (failure 500 ''Error creating enrollment'', s4)
             | (Inr u, s4) \<Rightarrow>
                 ((201, JObj ([(''success'', JBool True),
                               (''message'', JStr ''Enrollment created successfully'')]
                              @ first_row_field ''enrollment'' enrollment_json resultRows)),
                  s4)))))))))))"

record status_body =
  body_status :: "string option"

text \<open>\<^verbatim>\<open>app.put('/api/enrollments/:id/status', ...)\<close>\<close>

definition put_enrollment_status :: "nat option \<Rightarrow> int option \<Rightarrow> status_body \<Rightarrow> db \<Rightarrow> response \<times> db" where
  "put_enrollment_status fault ido b s =
     (if falsy (body_status b) then (failure 400 ''Status is required'', s)
      else
        (let st = (case body_status b of None \<Rightarrow> [] | Some v \<Rightarrow> v)
         in (case query fault 0 (select_enrollment_by_id ido) s of
               (Inl e, s0) \<Rightarrow> (failure 500 ''Error updating enrollment'', s0)
             | (Inr enrollmentRows, s0) \<Rightarrow>
            (case enrollmentRows of
               [] \<Rightarrow> (failure 404 ''Enrollment not found'', s0)
             | enr # rest \<Rightarrow>
            (case query fault 1 (update_status st ido) s0 of
               (Inl e, s1) \<Rightarrow> (failure 500 ''Error updating enrollment'', s1)
             | (Inr resultRows, s1) \<Rightarrow>
            (case (if st = ''Dropped''
                   then query fault 2 (update_current_enrollment (- 1) (enr_course_code enr)) s1
                   else (Inr (), s1)) of
               (Inl e, s2) \<Rightarrow> (failure 500 ''Error updating enrollment'', s2)
             | (Inr u, s2) \<Rightarrow>
                 ((200, JObj ([(''success'', JBool True),
                               (''message'', JStr ''Enrollment status updated successfully'')]
                              @ first_row_field ''enrollment'' enrollment_json resultRows)),
                  s2)))))))"

text \<open>
  The subquery of \<^verbatim>\<open>GET /api/students\<close> counts a student's rows with
  \<^verbatim>\<open>status = 'Active'\<close> as the active enrollments; the same reading of "active",
  per course, is the number the counter \<^verbatim>\<open>current_enrollment\<close> stands for.
\<close>

definition active_enrollments :: "string \<Rightarrow> enrollment list \<Rightarrow> nat" where
  "active_enrollments sid es =
     length (filter (\<lambda>r. enr_student_id r = sid \<and> status r = ''Active'') es)"

definition active_in_course :: "string \<Rightarrow> enrollment list \<Rightarrow> nat" where
  "active_in_course cc es =
     length (filter (\<lambda>r. enr_course_code r = cc \<and> status r = ''Active'') es)"

definition counters_in_sync :: "db \<Rightarrow> bool" where
  "counters_in_sync s =
     (case (courses s, enrollments s) of
        (Some cs, Some es) \<Rightarrow>
          list_all (\<lambda>c. current_enrollment c = int (active_in_course (course_code c) es)) cs
      | _ \<Rightarrow> True)"

section \<open>The unauthenticated variant: the schema initializer\<close>

text \<open>
  \<^verbatim>\<open>initializeDatabase\<close> of \<^verbatim>\<open>src/database.js\<close>.  \<^verbatim>\<open>CREATE TABLE IF NOT EXISTS\<close> leaves
  an existing table alone; the table \<^verbatim>\<open>enrollments\<close> references the other two, which
  must exist when it is created, and its creation starts the sequence.
\<close>

definition create_students :: "db \<Rightarrow> (db_error + unit) \<times> db" where
  "create_students s =
     (case students s of
        None \<Rightarrow> (Inr (), s\<lparr>students := Some []\<rparr>)
      | Some ss \<Rightarrow> (Inr (), s))"

definition create_courses :: "db \<Rightarrow> (db_error + unit) \<times> db" where
  "create_courses s =
     (case courses s of
        None \<Rightarrow> (Inr (), s\<lparr>courses := Some []\<rparr>)
      | Some cs \<Rightarrow> (Inr (), s))"

definition create_enrollments :: "db \<Rightarrow> (db_error + unit) \<times> db" where
  "create_enrollments s =
     (case enrollments s of
        Some es \<Rightarrow> (Inr (), s)
      | None \<Rightarrow>
          if students s = None \<or> courses s = None then (Inl UndefinedTable, s)
          else (Inr (), s\<lparr>enrollments := Some [], enrollment_id_seq := 0\<rparr>))"

text \<open>\<^verbatim>\<open>INSERT INTO students (...) VALUES ('CSC-23S-061', ...) ON CONFLICT (student_id)
  DO NOTHING\<close>\<close>

definition default_student :: "nat \<Rightarrow> student" where
  "default_student now =
     \<lparr>student_id = ''CSC-23S-061'', full_name = ''Muhammad Haider'', current_semester = 6,
      email = Some ''haider@example.com'', phone = Some ''0300-1234567'',
      student_created_at = now\<rparr>"

definition insert_default_student :: "nat \<Rightarrow> db \<Rightarrow> (db_error + unit) \<times> db" where
  "insert_default_student now s =
     (case students s of
        None \<Rightarrow> (Inl UndefinedTable, s)
      | Some ss \<Rightarrow>
          if list_ex (\<lambda>r. student_id r = student_id (default_student now)) ss then (Inr (), s)
          else (Inr (), s\<lparr>students := Some (ss @ [default_student now])\<rparr>))"

text \<open>The rows of the two seed arrays: code, name, description, semester, instructor,
  capacity.\<close>

type_synonym course_seed = "string \<times> string \<times> string \<times> int \<times> string \<times> int"

definition semester6Courses :: "course_seed list" where
  "semester6Courses =
     [(''CSC-601'', ''Mobile App Development'',
       ''Android and iOS application development with modern frameworks'', 6, ''Sir Abid Ali'', 35),
      (''CSC-602'', ''Technical and Business Writing'',
       ''Professional documentation and business communication skills'', 6, ''Dr Muhammad Nawaz'', 30),
      (''CSC-603'', ''Computer Networks'',
       ''Network protocols, security, and administration'', 6, ''Sir Hamid Iqbal'', 40),
      (''CSC-604'', ''Artificial Intelligence'',
       ''Machine learning algorithms and AI fundamentals'', 6, ''Sir Fida Hussain Khoso'', 35),
      (''CSC-605'', ''Digital Image Processing'',
       ''Image analysis, filtering, and computer vision basics'', 6, ''Sir Maaz Ahmed'', 30)]"

definition semester7Courses :: "course_seed list" where
  "semester7Courses =
     [(''CSC-701'', ''Cloud Computing'',
       ''AWS, Azure, and cloud deployment strategies'', 7, ''Prof. Lisa Martinez'', 35),
      (''CSC-702'', ''Cyber Security'',
       ''Network security, cryptography, and ethical hacking'', 7, ''Dr. James Anderson'', 40),
      (''CSC-703'', ''Software Engineering'',
       ''Agile methodologies and software project management'', 7, ''Prof. Karen Thomas'', 30),
      (''CSC-704'', ''Data Science'',
       ''Big data analytics and machine learning models'', 7, ''Dr. William Clark'', 35),
      (''CSC-705'', ''Internet of Things'',
       ''IoT architecture, sensors, and practical applications'', 7, ''Prof. Amanda Lewis'', 40)]"

text \<open>
  \<^verbatim>\<open>INSERT INTO courses (course_code, course_name, description, semester, instructor,
  max_capacity) VALUES ($1, ..., $6) ON CONFLICT (course_code) DO NOTHING\<close>; the columns
  left out take their defaults (3 credits, counter 0).
\<close>

fun seed_course :: "nat \<Rightarrow> course_seed \<Rightarrow> course" where
  "seed_course now (code, name, descr, sem, instr, cap) =
     \<lparr>course_code = code, course_name = name, description = Some descr, semester = sem,
      credits = 3, instructor = instr, max_capacity = cap, current_enrollment = 0,
      course_created_at = now\<rparr>"

definition insert_course :: "nat \<Rightarrow> course_seed \<Rightarrow> db \<Rightarrow> (db_error + unit) \<times> db" where
  "insert_course now c s =
     (case courses s of
        None \<Rightarrow> (Inl UndefinedTable, s)
      | Some cs \<Rightarrow>
          if list_ex (\<lambda>r. course_code r = fst c) cs then (Inr (), s)
          else (Inr (), s\<lparr>courses := Some (cs @ [seed_course now c])\<rparr>))"

text \<open>The loop \<^verbatim>\<open>for (const course of ...) await pool.query(...)\<close>; \<open>n\<close> numbers the
  queries of the initializer.\<close>

fun insert_courses :: "nat option \<Rightarrow> nat \<Rightarrow> nat \<Rightarrow> course_seed list \<Rightarrow> db \<Rightarrow> (db_error + unit) \<times> db" where
  "insert_courses fault n now [] s = (Inr (), s)"
| "insert_courses fault n now (c # cs) s =
     (case query fault n (insert_course now c) s of
        (Inl e, s') \<Rightarrow> (Inl e, s')
      | (Inr u, s') \<Rightarrow> insert_courses fault (Suc n) now cs s')"

text \<open>\<^verbatim>\<open>SELECT COUNT(*) FROM ...\<close>, read for the log only.\<close>

definition count_rows :: "(db \<Rightarrow> 'a list option) \<Rightarrow> db \<Rightarrow> (db_error + nat) \<times> db" where
  "count_rows tab s =
     (case tab s of None \<Rightarrow> (Inl UndefinedTable, s) | Some rs \<Rightarrow> (Inr (length rs), s))"

text \<open>
  The body of \<^verbatim>\<open>initializeDatabase\<close>: the result is the log line it ends with (the error
  its \<^verbatim>\<open>catch\<close> prints, or nothing) and the database it leaves.
\<close>

definition initializeDatabase :: "nat option \<Rightarrow> nat \<Rightarrow> db \<Rightarrow> db_error option \<times> db" where
  "initializeDatabase fault now s =
     (case query fault 0 create_students s of
        (Inl e, s0) \<Rightarrow> (Some e, s0)
      | (Inr u, s0) \<Rightarrow>
     (case query fault 1 create_courses s0 of
        (Inl e, s1) \<Rightarrow> (Some e, s1)
      | (Inr u, s1) \<Rightarrow>
     (case query fault 2 create_enrollments s1 of
        (Inl e, s2) \<Rightarrow> (Some e, s2)
      | (Inr u, s2) \<Rightarrow>
     (case query fault 3 (insert_default_student now) s2 of
        (Inl e, s3) \<Rightarrow> (Some e, s3)
      | (Inr u, s3) \<Rightarrow>
     (case insert_courses fault 4 now semester6Courses s3 of
        (Inl e, s4) \<Rightarrow> (Some e, s4)
      | (Inr u, s4) \<Rightarrow>
     (case insert_courses fault 9 now semester7Courses s4 of
        (Inl e, s5) \<Rightarrow> (Some e, s5)
      | (Inr u, s5) \<Rightarrow>
     (case query fault 14 (count_rows students) s5 of
        (Inl e, s6) \<Rightarrow> (Some e, s6)
      | (Inr studentCount, s6) \<Rightarrow>
     (case query fault 15 (count_rows courses) s6 of
        (Inl e, s7) \<Rightarrow> (Some e, s7)
      | (Inr courseCount, s7) \<Rightarrow>
     (case query fault 16 (count_rows enrollments) s7 of
        (Inl e, s8) \<Rightarrow> (Some e, s8)
      | (Inr enrollmentCount, s8) \<Rightarrow> (None, s8))))))))))"

text \<open>A database in which nothing has been created yet.\<close>

definition empty_db :: db where
  "empty_db = \<lparr>students = None, courses = None, enrollments = None, enrollment_id_seq = 0\<rparr>"

section \<open>The authenticated variant: schema\<close>

record user =
  u_id :: int
  u_name :: string
  u_email :: string
  u_password :: string
  u_role :: string
  u_created_at :: nat

record auth_course =
  ac_id :: int
  ac_title :: string
  ac_description :: "string option"
  ac_instructor :: string
  ac_credits :: int
  ac_schedule :: "string option"
  ac_capacity :: int
  ac_enrolled :: int
  ac_duration :: string
  ac_created_at :: nat

record auth_enrollment =
  ae_id :: int
  ae_user_id :: int
  ae_course_id :: int
  ae_enrolled_at :: nat
  ae_status :: string

record auth_db =
  users :: "user list option"
  auth_courses :: "auth_course list option"
  auth_enrollments :: "auth_enrollment list option"
  users_id_seq :: int
  courses_id_seq :: int
  enrollments_id_seq :: int

text \<open>The row shapes of the two queries that name their columns:
  \<^verbatim>\<open>SELECT id, name, email, role\<close> and \<^verbatim>\<open>RETURNING id, name, email, role, created_at\<close>.\<close>

record identity =
  ident_id :: int
  ident_name :: string
  ident_email :: string
  ident_role :: string

record user_public =
  pub_id :: int
  pub_name :: string
  pub_email :: string
  pub_role :: string
  pub_created_at :: nat

text \<open>The claims of a token, as \<^verbatim>\<open>jwt.sign\<close> receives and \<^verbatim>\<open>jwt.verify\<close> returns them.\<close>

record jwt_payload =
  jwt_id :: int
  jwt_email :: string
  jwt_role :: string
  jwt_name :: string

section \<open>The authenticated variant: statements\<close>

text \<open>\<^verbatim>\<open>SELECT id, name, email, role FROM users WHERE id = $1\<close>\<close>

definition select_identity :: "int \<Rightarrow> auth_db \<Rightarrow> (db_error + identity list) \<times> auth_db" where
  "select_identity i s =
     (case users s of
        None \<Rightarrow> (Inl UndefinedTable, s)
      | Some us \<Rightarrow>
          if \<not> int4_ok i then (Inl NumericValueOutOfRange, s)
          else (Inr (map (\<lambda>r. \<lparr>ident_id = u_id r, ident_name = u_name r, ident_email = u_email r,
                                 ident_role = u_role r\<rparr>)
                       (filter (\<lambda>r. u_id r = i) us)), s))"

text \<open>\<^verbatim>\<open>SELECT * FROM users WHERE email = $1\<close>\<close>

definition select_user_by_email :: "string \<Rightarrow> auth_db \<Rightarrow> (db_error + user list) \<times> auth_db" where
  "select_user_by_email e s =
     (case users s of
        None \<Rightarrow> (Inl UndefinedTable, s)
      | Some us \<Rightarrow>
          if \<not> pg_text_ok e then (Inl InvalidByteSequence, s)
          else (Inr (filter (\<lambda>r. u_email r = e) us), s))"

text \<open>\<^verbatim>\<open>INSERT INTO users (name, email, password, role) VALUES ($1, $2, $3, $4)
  RETURNING id, name, email, role, created_at\<close>\<close>

definition insert_user :: "nat \<Rightarrow> string \<Rightarrow> string \<Rightarrow> string \<Rightarrow> string \<Rightarrow> auth_db \<Rightarrow> (db_error + user_public list) \<times> auth_db" where
  "insert_user now name mail hashed role s =
     (case users s of
        None \<Rightarrow> (Inl UndefinedTable, s)
      | Some us \<Rightarrow>
          (let i = users_id_seq s + 1;
               s1 = s\<lparr>users_id_seq := i\<rparr>;
               row = \<lparr>u_id = i, u_name = name, u_email = mail, u_password = hashed,
                      u_role = role, u_created_at = now\<rparr>
           in if \<not> pg_text_ok name \<or> \<not> pg_text_ok mail \<or> \<not> pg_text_ok hashed \<or> \<not> pg_text_ok role
              then (Inl InvalidByteSequence, s)
              else if \<not> int4_ok i then (Inl SequenceGeneratorLimitExceeded, s)
              else if list_ex (\<lambda>r. u_id r = i) us then (Inl UniqueViolation, s1)
              else if list_ex (\<lambda>r. u_email r = mail) us then (Inl UniqueViolation, s1)
              else (Inr [\<lparr>pub_id = i, pub_name = name, pub_email = mail, pub_role = role,
                          pub_created_at = now\<rparr>],
                    s1\<lparr>users := Some (us @ [row])\<rparr>)))"

text \<open>\<^verbatim>\<open>SELECT u.*, (SELECT COUNT(*) FROM enrollments WHERE user_id = u.id) as
  enrollment_count FROM users u WHERE u.id = $1\<close>\<close>

definition select_profile :: "int \<Rightarrow> auth_db \<Rightarrow> (db_error + (user \<times> nat) list) \<times> auth_db" where
  "select_profile i s =
     (case (users s, auth_enrollments s) of
        (Some us, Some es) \<Rightarrow>
          if \<not> int4_ok i then (Inl NumericValueOutOfRange, s)
          else (Inr (map (\<lambda>r. (r, length (filter (\<lambda>e. ae_user_id e = u_id r) es)))
                       (filter (\<lambda>r. u_id r = i) us)), s)
      | _ \<Rightarrow> (Inl UndefinedTable, s))"

text \<open>\<^verbatim>\<open>SELECT * FROM courses WHERE id = $1 FOR UPDATE\<close>, sent through the pool: the
  row lock ends with the statement.\<close>

definition select_course_for_update :: "int \<Rightarrow> auth_db \<Rightarrow> (db_error + auth_course list) \<times> auth_db" where
  "select_course_for_update i s =
     (case auth_courses s of
        None \<Rightarrow> (Inl UndefinedTable, s)
      | Some cs \<Rightarrow>
          if \<not> int4_ok i then (Inl NumericValueOutOfRange, s)
          else (Inr (filter (\<lambda>r. ac_id r = i) cs), s))"


text \<open>\<^verbatim>\<open>SELECT * FROM enrollments WHERE user_id = $1 AND course_id = $2\<close>\<close>

definition select_auth_enrollment :: "int \<Rightarrow> int \<Rightarrow> auth_db \<Rightarrow> (db_error + auth_enrollment list) \<times> auth_db" where
  "select_auth_enrollment uid cid s =
     (case auth_enrollments s of
        None \<Rightarrow> (Inl UndefinedTable, s)
      | Some es \<Rightarrow>
          if \<not> int4_ok uid \<or> \<not> int4_ok cid then (Inl NumericValueOutOfRange, s)
          else (Inr (filter (\<lambda>r. ae_user_id r = uid \<and> ae_course_id r = cid) es), s))"

text \<open>\<^verbatim>\<open>INSERT INTO enrollments (user_id, course_id) VALUES ($1, $2) RETURNING *\<close>; the
  status takes its default \<^verbatim>\<open>'active'\<close>.\<close>

definition insert_auth_enrollment :: "nat \<Rightarrow> int \<Rightarrow> int \<Rightarrow> auth_db \<Rightarrow> (db_error + auth_enrollment list) \<times> auth_db" where
  "insert_auth_enrollment now uid cid s =
     (case auth_enrollments s of
        None \<Rightarrow> (Inl UndefinedTable, s)
      | Some es \<Rightarrow>
          (let i = enrollments_id_seq s + 1;
               s1 = s\<lparr>enrollments_id_seq := i\<rparr>;
               row = \<lparr>ae_id = i, ae_user_id = uid, ae_course_id = cid, ae_enrolled_at = now,
                      ae_status = ''active''\<rparr>
           in if \<not> int4_ok uid \<or> \<not> int4_ok cid then (Inl NumericValueOutOfRange, s)
              else if \<not> int4_ok i then (Inl SequenceGeneratorLimitExceeded, s)
              else if list_ex (\<lambda>r. ae_id r = i) es then (Inl UniqueViolation, s1)
              else if list_ex (\<lambda>r. ae_user_id r = uid \<and> ae_course_id r = cid) es
                then (Inl UniqueViolation, s1)
              else if \<not> list_ex (\<lambda>r. u_id r = uid) (case users s of None \<Rightarrow> [] | Some us \<Rightarrow> us)
                then (Inl ForeignKeyViolation, s1)
              else if \<not> list_ex (\<lambda>r. ac_id r = cid) (case auth_courses s of None \<Rightarrow> [] | Some cs \<Rightarrow> cs)
                then (Inl ForeignKeyViolation, s1)
              else (Inr [row], s1\<lparr>auth_enrollments := Some (es @ [row])\<rparr>)))"

text \<open>\<^verbatim>\<open>UPDATE courses SET enrolled = enrolled + 1 WHERE id = $1\<close>\<close>

definition update_enrolled :: "int \<Rightarrow> auth_db \<Rightarrow> (db_error + unit) \<times> auth_db" where
  "update_enrolled cid s =
     (case auth_courses s of
        None \<Rightarrow> (Inl UndefinedTable, s)
      | Some cs \<Rightarrow>
          if \<not> int4_ok cid then (Inl NumericValueOutOfRange, s)
          else if list_ex (\<lambda>r. ac_id r = cid \<and> \<not> int4_ok (ac_enrolled r + 1)) cs
          then (Inl NumericValueOutOfRange, s)
          else (Inr (),
                s\<lparr>auth_courses := Some (map (\<lambda>r. if ac_id r = cid
                                                   then r\<lparr>ac_enrolled := ac_enrolled r + 1\<rparr>
                                                   else r) cs)\<rparr>))"

text \<open>
  \<^verbatim>\<open>BEGIN\<close> ... \<^verbatim>\<open>COMMIT\<close>/\<^verbatim>\<open>ROLLBACK\<close> on one client.  The handler runs alone on the
  database here, so a transaction is the database at \<^verbatim>\<open>BEGIN\<close> kept beside the one
  the statements work on: \<^verbatim>\<open>COMMIT\<close> keeps the working one, \<^verbatim>\<open>ROLLBACK\<close> (also the
  one the server performs when the connection is lost) puts the tables back.
  Sequences are not transactional and keep the values they handed out.
\<close>

definition rollback :: "auth_db \<Rightarrow> auth_db \<Rightarrow> auth_db" where
  "rollback s_begin s_work =
     s_begin\<lparr>users_id_seq := users_id_seq s_work, courses_id_seq := courses_id_seq s_work,
             enrollments_id_seq := enrollments_id_seq s_work\<rparr>"

text \<open>\<^verbatim>\<open>pool.connect()\<close>, \<^verbatim>\<open>BEGIN\<close> and \<^verbatim>\<open>COMMIT\<close> change no row by themselves.\<close>

definition no_rows :: "auth_db \<Rightarrow> (db_error + unit) \<times> auth_db" where
  "no_rows s = (Inr (), s)"

section \<open>The authenticated variant: middleware\<close>

text \<open>JavaScript's \<^verbatim>\<open>s.split(' ')\<close> and \<^verbatim>\<open>xs[i]\<close> (absent out of range).\<close>

fun split_on :: "char \<Rightarrow> string \<Rightarrow> string list" where
  "split_on c [] = [[]]"
| "split_on c (x # xs) =
     (if x = c then [] # split_on c xs
      else (case split_on c xs of [] \<Rightarrow> [[x]] | w # ws \<Rightarrow> (x # w) # ws))"

fun js_index :: "'a list \<Rightarrow> nat \<Rightarrow> 'a option" where
  "js_index [] n = None"
| "js_index (x # xs) 0 = Some x"
| "js_index (x # xs) (Suc n) = js_index xs n"

text \<open>\<^verbatim>\<open>authHeader && authHeader.split(' ')[1]\<close>\<close>

definition bearer_token :: "string option \<Rightarrow> string option" where
  "bearer_token authHeader =
     (case authHeader of
        None \<Rightarrow> None
      | Some h \<Rightarrow> if h = [] then Some [] else js_index (split_on CHR '' '' h) 1)"

text \<open>
  \<^verbatim>\<open>authenticateToken\<close>.  \<open>verify\<close> stands for \<^verbatim>\<open>jwt.verify(token, JWT_SECRET)\<close>: \<open>None\<close>
  where it throws (bad signature, malformed or expired token).  The result is the
  response that ends the request, or the row attached as \<^verbatim>\<open>req.user\<close>.
\<close>

definition authenticateToken :: "(string \<Rightarrow> jwt_payload option) \<Rightarrow> nat option \<Rightarrow> string option \<Rightarrow> auth_db \<Rightarrow> response + identity" where
  "authenticateToken verify fault authHeader s =
     (let token = bearer_token authHeader
      in if falsy token then Inl (failure 401 ''Access token required'')
         else
           (case verify (case token of None \<Rightarrow> [] | Some v \<Rightarrow> v) of
              None \<Rightarrow> Inl (failure 403 ''Invalid or expired token'')
            | Some decoded \<Rightarrow>
                (case fst (query fault 0 (select_identity (jwt_id decoded)) s) of
                   Inl e \<Rightarrow> Inl (failure 403 ''Invalid or expired token'')
                 | Inr userRows \<Rightarrow>
                     (case userRows of
                        [] \<Rightarrow> Inl (failure 403 ''User not found'')
                      | r # rest \<Rightarrow> Inr r))))"


section \<open>The authenticated variant: register, login, profile\<close>

text \<open>JavaScript's \<^verbatim>\<open>x || d\<close> on a field that is absent or a string.\<close>

fun or_default :: "string option \<Rightarrow> string \<Rightarrow> string" where
  "or_default None d = d"
| "or_default (Some v) d = (if v = [] then d else v)"

text \<open>The object a row of \<^verbatim>\<open>users\<close> is in JavaScript, column by column.\<close>

definition user_columns :: "user \<Rightarrow> (string \<times> json) list" where
  "user_columns r =
     [(''id'', JNum (u_id r)), (''name'', JStr (u_name r)), (''email'', JStr (u_email r)),
      (''password'', JStr (u_password r)), (''role'', JStr (u_role r)),
      (''created_at'', JNum (int (u_created_at r)))]"

definition user_public_columns :: "user_public \<Rightarrow> (string \<times> json) list" where
  "user_public_columns r =
     [(''id'', JNum (pub_id r)), (''name'', JStr (pub_name r)), (''email'', JStr (pub_email r)),
      (''role'', JStr (pub_role r)), (''created_at'', JNum (int (pub_created_at r)))]"

text \<open>\<^verbatim>\<open>delete obj.k\<close> and the rest pattern \<^verbatim>\<open>const { k: _, ...rest } = obj\<close>.\<close>

definition omit :: "string \<Rightarrow> (string \<times> json) list \<Rightarrow> (string \<times> json) list" where
  "omit k obj = filter (\<lambda>kv. fst kv \<noteq> k) obj"

record register_body =
  reg_name :: "string option"
  reg_email :: "string option"
  reg_password :: "string option"
  reg_role :: "string option"

text \<open>
  \<^verbatim>\<open>app.post('/api/auth/register', ...)\<close>.  \<open>hash\<close> stands for \<^verbatim>\<open>bcrypt.hash(_, 10)\<close>
  and \<open>sign\<close> for \<^verbatim>\<open>jwt.sign(_, JWT_SECRET, { expiresIn: '24h' })\<close>.  Reading
  \<^verbatim>\<open>newUser.rows[0].id\<close> of an empty result throws, which the \<^verbatim>\<open>catch\<close> answers.
\<close>

definition register :: "(string \<Rightarrow> string) \<Rightarrow> (jwt_payload \<Rightarrow> string) \<Rightarrow> nat option \<Rightarrow> nat \<Rightarrow> register_body \<Rightarrow> auth_db \<Rightarrow> response \<times> auth_db" where
  "register hash sign fault now b s =
     (if falsy (reg_name b) \<or> falsy (reg_email b) \<or> falsy (reg_password b)
      then (failure 400 ''All fields are required'', s)
      else
        (let name = or_default (reg_name b) [];
             mail = or_default (reg_email b) [];
             password = or_default (reg_password b) []
         in case query fault 0 (select_user_by_email mail) s of
              (Inl e, s0) \<Rightarrow> (failure 500 ''Server error during registration'', s0)
            | (Inr existingRows, s0) \<Rightarrow>
          if length existingRows > 0 then (failure 400 ''User already exists'', s0)
          else
            (case query fault 1
                    (insert_user now name mail (hash password) (or_default (reg_role b) ''student''))
                    s0 of
               (Inl e, s1) \<Rightarrow> (failure 500 ''Server error during registration'', s1)
             | (Inr newRows, s1) \<Rightarrow>
                 (case newRows of
                    [] \<Rightarrow> (failure 500 ''Server error during registration'', s1)
                  | r # rest \<Rightarrow>
                      ((201, JObj [(''success'', JBool True),
                                   (''message'', JStr ''Registration successful''),
                                   (''user'', JObj (user_public_columns r)),
                                   (''token'', JStr (sign \<lparr>jwt_id = pub_id r, jwt_email = pub_email r,
                                                             jwt_role = pub_role r,
                                                             jwt_name = pub_name r\<rparr>))]),
                       s1)))))"

record login_body =
  login_email :: "string option"
  login_password :: "string option"

text \<open>\<^verbatim>\<open>app.post('/api/auth/login', ...)\<close>; \<open>compare\<close> stands for \<^verbatim>\<open>bcrypt.compare\<close>.  The
  handler only reads the database.\<close>

definition login :: "(string \<Rightarrow> string \<Rightarrow> bool) \<Rightarrow> (jwt_payload \<Rightarrow> string) \<Rightarrow> nat option \<Rightarrow> login_body \<Rightarrow> auth_db \<Rightarrow> response" where
  "login compare sign fault b s =
     (if falsy (login_email b) \<or> falsy (login_password b)
      then failure 400 ''Email and password are required''
      else
        (case fst (query fault 0 (select_user_by_email (or_default (login_email b) [])) s) of
           Inl e \<Rightarrow> failure 500 ''Server error during login''
         | Inr userRows \<Rightarrow>
             (case userRows of
                [] \<Rightarrow> failure 401 ''Invalid credentials''
              | u # rest \<Rightarrow>
                  if \<not> compare (or_default (login_password b) []) (u_password u)
                  then failure 401 ''Invalid credentials''
                  else (200, JObj [(''success'', JBool True),
                                   (''message'', JStr ''Login successful''),
                                   (''user'', JObj (omit ''password'' (user_columns u))),
                                   (''token'', JStr (sign \<lparr>jwt_id = u_id u, jwt_email = u_email u,
                                                             jwt_role = u_role u,
                                                             jwt_name = u_name u\<rparr>))]))))"

text \<open>node-postgres hands the \<^verbatim>\<open>bigint\<close> of \<^verbatim>\<open>COUNT(*)\<close> to JavaScript as a string of
  decimal digits.\<close>

fun decimal :: "nat \<Rightarrow> string" where
  "decimal n =
     (if n < 10 then [char_of (48 + n)]
      else decimal (n div 10) @ [char_of (48 + n mod 10)])"

declare decimal.simps [simp del]

text \<open>The handler of \<^verbatim>\<open>GET /api/users/profile\<close>, after the middleware has set
  \<^verbatim>\<open>req.user\<close>.\<close>

definition profile :: "nat option \<Rightarrow> identity \<Rightarrow> auth_db \<Rightarrow> response" where
  "profile fault u s =
     (case fst (query fault 0 (select_profile (ident_id u)) s) of
        Inl e \<Rightarrow> failure 500 ''Error fetching profile''
      | Inr userRows \<Rightarrow>
          (case userRows of
             [] \<Rightarrow> failure 404 ''User not found''
           | (r, n) # rest \<Rightarrow>
               (200, JObj [(''success'', JBool True),
                           (''user'', JObj (omit ''password''
                                             (user_columns r @ [(''enrollment_count'', JStr (decimal n))])))])))"

text \<open>The route \<^verbatim>\<open>app.get('/api/users/profile', authenticateToken, ...)\<close>.\<close>

definition get_users_profile :: "(string \<Rightarrow> jwt_payload option) \<Rightarrow> nat option \<Rightarrow> nat option \<Rightarrow> string option \<Rightarrow> auth_db \<Rightarrow> response" where
  "get_users_profile verify fault_mw fault authHeader s =
     (case authenticateToken verify fault_mw authHeader s of
        Inl r \<Rightarrow> r
      | Inr u \<Rightarrow> profile fault u s)"

text \<open>The keys of the \<^verbatim>\<open>user\<close> object of a response body, none where the body has no
  such object.\<close>

fun field_keys :: "string \<Rightarrow> (string \<times> json) list \<Rightarrow> string list" where
  "field_keys k [] = []"
| "field_keys k ((k', JObj obj) # kvs) =
     (if k' = k then map fst obj @ field_keys k kvs else field_keys k kvs)"
| "field_keys k (kv # kvs) = field_keys k kvs"

fun user_keys :: "response \<Rightarrow> string list" where
  "user_keys (code, JObj kvs) = field_keys ''user'' kvs"
| "user_keys (code, other) = []"

section \<open>The authenticated variant: courses and enrollment\<close>

text \<open>JavaScript's \<^verbatim>\<open>!x\<close> on a body field that is absent or a number.\<close>

fun falsy_num :: "int option \<Rightarrow> bool" where
  "falsy_num None = True"
| "falsy_num (Some v) = (v = 0)"

fun num_or :: "int option \<Rightarrow> int \<Rightarrow> int" where
  "num_or None d = d"
| "num_or (Some v) d = v"


definition auth_enrollment_columns :: "auth_enrollment \<Rightarrow> (string \<times> json) list" where
  "auth_enrollment_columns r =
     [(''id'', JNum (ae_id r)), (''user_id'', JNum (ae_user_id r)),
      (''course_id'', JNum (ae_course_id r)), (''enrolled_at'', JNum (int (ae_enrolled_at r))),
      (''status'', JStr (ae_status r))]"




text \<open>
  The \<^verbatim>\<open>try\<close> block of the enrollment handler, from \<^verbatim>\<open>BEGIN\<close> (query 2) to \<^verbatim>\<open>COMMIT\<close>
  (query 6).  Every way out other than the commit rolls back: the explicit
  \<^verbatim>\<open>ROLLBACK\<close> before the "already enrolled" answer and the one in the \<^verbatim>\<open>catch\<close>.
\<close>

definition enroll_transaction :: "nat option \<Rightarrow> nat \<Rightarrow> int \<Rightarrow> int \<Rightarrow> auth_course \<Rightarrow> auth_db \<Rightarrow> response \<times> auth_db" where
  "enroll_transaction fault now userId cid course s_begin =
     (case query fault 2 no_rows s_begin of
        (Inl e, w0) \<Rightarrow> (failure 500 ''Error enrolling in course'', rollback s_begin w0)
      | (Inr u, w0) \<Rightarrow>
     (case query fault 3 (select_auth_enrollment userId cid) w0 of
        (Inl e, w1) \<Rightarrow> (failure 500 ''Error enrolling in course'', rollback s_begin w1)
      | (Inr existingRows, w1) \<Rightarrow>
     if length existingRows > 0
     then (failure 400 ''Already enrolled in this course'', rollback s_begin w1)
     else
     (case query fault 4 (insert_auth_enrollment now userId cid) w1 of
        (Inl e, w2) \<Rightarrow> (failure 500 ''Error enrolling in course'', rollback s_begin w2)
      | (Inr enrollmentRows, w2) \<Rightarrow>
     (case query fault 5 (update_enrolled cid) w2 of
        (Inl e, w3) \<Rightarrow> (failure 500 ''Error enrolling in course'', rollback s_begin w3)
      | (Inr u, w3) \<Rightarrow>
     (case query fault 6 no_rows w3 of
        (Inl e, w4) \<Rightarrow> (failure 500 ''Error enrolling in course'', rollback s_begin w4)
      | (Inr u, w4) \<Rightarrow>
          ((201, JObj [(''success'', JBool True),
                       (''message'', JStr ''Enrolled successfully''),
                       (''enrollment'',
                        JObj ((case enrollmentRows of [] \<Rightarrow> [] | r # rest \<Rightarrow> auth_enrollment_columns r)
                              @ [(''courseTitle'', JStr (ac_title course)),
                                 (''courseDescription'', json_opt (ac_description course)),
                                 (''instructor'', JStr (ac_instructor course)),
                                 (''schedule'', json_opt (ac_schedule course))]))]),
           w4))))))"

text \<open>The handler of \<^verbatim>\<open>POST /api/enrollments\<close> of the authenticated variant; query 1 is
  \<^verbatim>\<open>db.pool.connect()\<close>.\<close>

definition enroll :: "nat option \<Rightarrow> nat \<Rightarrow> identity \<Rightarrow> int option \<Rightarrow> auth_db \<Rightarrow> response \<times> auth_db" where
  "enroll fault now u courseId s =
     (if falsy_num courseId then (failure 400 ''Course ID is required'', s)
      else
        (case query fault 0 (select_course_for_update (num_or courseId 0)) s of
           (Inl e, s0) \<Rightarrow> (failure 500 ''Error enrolling in course'', s0)
         | (Inr courseRows, s0) \<Rightarrow>
             (case courseRows of
                [] \<Rightarrow> (failure 404 ''Course not found'', s0)
              | course # rest \<Rightarrow>
                  if ac_enrolled course \<ge> ac_capacity course
                  then (failure 400 ''Course is full'', s0)
                  else
                    (case query fault 1 no_rows s0 of
                       (Inl e, s1) \<Rightarrow> (failure 500 ''Error enrolling in course'', s1)
                     | (Inr c, s1) \<Rightarrow>
                         enroll_transaction fault now (ident_id u) (num_or courseId 0) course s1))))"

text \<open>The route \<^verbatim>\<open>app.post('/api/enrollments', authenticateToken, ...)\<close>.\<close>

definition post_auth_enrollments :: "(string \<Rightarrow> jwt_payload option) \<Rightarrow> nat option \<Rightarrow> nat option \<Rightarrow> nat \<Rightarrow> string option \<Rightarrow> int option \<Rightarrow> auth_db \<Rightarrow> response \<times> auth_db" where
  "post_auth_enrollments verify fault_mw fault now authHeader courseId s =
     (case authenticateToken verify fault_mw authHeader s of
        Inl r \<Rightarrow> (r, s)
      | Inr u \<Rightarrow> enroll fault now u courseId s)"

section \<open>Concrete databases\<close>

text \<open>The unauthenticated database after the initializer has run on an empty store, and
  an authenticated one holding a single user and a single course.\<close>

definition seeded_db :: db where
  "seeded_db = snd (initializeDatabase None 0 empty_db)"

definition csc601_only :: db where
  "csc601_only =
     \<lparr>students = Some [default_student 0],
      courses = Some [seed_course 0 (''CSC-601'', ''Mobile App Development'',
        ''Android and iOS application development with modern frameworks'', 6, ''Sir Abid Ali'', 35)],
      enrollments = Some [], enrollment_id_seq = 0\<rparr>"

text \<open>
  The requests used on them: the seeded student enrolling in \<^verbatim>\<open>CSC-601\<close>, and the
  body that drops an enrollment; then the databases after enrolling once, after
  dropping that enrollment, and after dropping it a second time.
\<close>

definition haider_csc601 :: enroll_body where
  "haider_csc601 = \<lparr>body_student_id = Some ''CSC-23S-061'', body_course_code = Some ''CSC-601''\<rparr>"

definition drop_body :: status_body where
  "drop_body = \<lparr>body_status = Some ''Dropped''\<rparr>"

definition enrolled_once :: db where
  "enrolled_once = snd (post_enrollments None 1 haider_csc601 csc601_only)"

definition dropped_once :: db where
  "dropped_once = snd (put_enrollment_status None (Some 1) drop_body enrolled_once)"

definition dropped_twice :: db where
  "dropped_twice = snd (put_enrollment_status None (Some 1) drop_body dropped_once)"

text \<open>A course with a single seat, taken by the seeded student, and a second student
  who is not enrolled.\<close>

definition full_course_db :: db where
  "full_course_db =
     \<lparr>students = Some [default_student 0,
                       \<lparr>student_id = ''CSC-23S-062'', full_name = ''Second Student'',
                        current_semester = 6, email = None, phone = None,
                        student_created_at = 0\<rparr>],
      courses = Some [\<lparr>course_code = ''CSC-699'', course_name = ''Seminar'',
                       description = None, semester = 6, credits = 3,
                       instructor = ''Sir Abid Ali'', max_capacity = 1,
                       current_enrollment = 1, course_created_at = 0\<rparr>],
      enrollments = Some [\<lparr>enrollment_id = 1, enr_student_id = ''CSC-23S-061'',
                           enr_course_code = ''CSC-699'', enrollment_date = 0,
                           status = ''Active'', grade = None\<rparr>],
      enrollment_id_seq = 1\<rparr>"

text \<open>
  The authenticated database as its initializer leaves a fresh store, with one of the
  sample courses: the administrator \<^verbatim>\<open>admin@cms.com\<close> is user 1.  The three functions
  stand in for \<^verbatim>\<open>bcrypt.hash\<close>, \<^verbatim>\<open>jwt.sign\<close> and \<^verbatim>\<open>jwt.verify\<close> where a concrete run needs
  them: the token of a payload is its user id in unary, and only tokens of that shape
  verify.
\<close>

definition admin_only :: auth_db where
  "admin_only =
     \<lparr>users = Some [\<lparr>u_id = 1, u_name = ''Admin User'', u_email = ''admin@cms.com'',
                      u_password = ''$2a$10$stored.hash.of.admin123'', u_role = ''admin'',
                      u_created_at = 0\<rparr>],
      auth_courses = Some [\<lparr>ac_id = 1, ac_title = ''Android Development'',
                            ac_description = Some ''Learn Android app development with Java/Kotlin'',
                            ac_instructor = ''John Doe'', ac_credits = 3,
                            ac_schedule = Some ''Mon/Wed 10:00 AM'', ac_capacity = 30,
                            ac_enrolled = 0, ac_duration = ''12 weeks'', ac_created_at = 0\<rparr>],
      auth_enrollments = Some [],
      users_id_seq = 1, courses_id_seq = 1, enrollments_id_seq = 0\<rparr>"

definition sample_hash :: "string \<Rightarrow> string" where
  "sample_hash pw = ''$2a$10$'' @ rev pw"

definition sample_sign :: "jwt_payload \<Rightarrow> string" where
  "sample_sign p = replicate (nat (jwt_id p)) CHR ''i''"

definition sample_verify :: "string \<Rightarrow> jwt_payload option" where
  "sample_verify tok =
     (if tok \<noteq> [] \<and> list_all (\<lambda>c. c = CHR ''i'') tok
      then Some \<lparr>jwt_id = int (length tok), jwt_email = [], jwt_role = [], jwt_name = []\<rparr>
      else None)"

text \<open>Registration bodies that ask for the role \<^verbatim>\<open>admin\<close> and for the empty role, and a
  body for \<^verbatim>\<open>POST /api/courses\<close>.\<close>

definition admin_request :: register_body where
  "admin_request =
     \<lparr>reg_name = Some ''Eve'', reg_email = Some ''eve@example.com'',
      reg_password = Some ''secret'', reg_role = Some ''admin''\<rparr>"



text \<open>The same database with every stored password hash replaced.\<close>

definition rewrite_passwords :: "(string \<Rightarrow> string) \<Rightarrow> auth_db \<Rightarrow> auth_db" where
  "rewrite_passwords g s =
     s\<lparr>users := map_option (map (\<lambda>r. r\<lparr>u_password := g (u_password r)\<rparr>)) (users s)\<rparr>"

section \<open>What the schema guarantees, and what the claims observe\<close>

text \<open>
  The constraints the \<^verbatim>\<open>CREATE TABLE\<close> statements of \<^verbatim>\<open>src/database.js\<close> put on the
  three tables: primary keys, \<^verbatim>\<open>unique_enrollment\<close>, the two foreign keys, the width of
  the counter, keys that are text the database holds; and the sequence has not gone
  below its start nor is it behind the ids it has handed out.
\<close>

definition schema_ok :: "db \<Rightarrow> bool" where
  "schema_ok s =
     (case (students s, courses s, enrollments s) of
        (Some ss, Some cs, Some es) \<Rightarrow>
          distinct (map student_id ss) \<and>
          distinct (map course_code cs) \<and>
          distinct (map enrollment_id es) \<and>
          distinct (map (\<lambda>r. (enr_student_id r, enr_course_code r)) es) \<and>
          list_all (\<lambda>r. enrollment_id r \<le> enrollment_id_seq s) es \<and>
          list_all (\<lambda>r. enr_student_id r \<in> set (map student_id ss)) es \<and>
          list_all (\<lambda>r. enr_course_code r \<in> set (map course_code cs)) es \<and>
          list_all (\<lambda>r. int4_ok (current_enrollment r)) cs \<and>
          list_all (\<lambda>r. pg_text_ok (student_id r)) ss \<and>
          list_all (\<lambda>r. pg_text_ok (course_code r)) cs \<and>
          0 \<le> enrollment_id_seq s
      | _ \<Rightarrow> False)"

text \<open>The row of a course, a student and of a (student, course) pair, as the handlers'
  \<^verbatim>\<open>SELECT\<close>s find them.\<close>

definition find_course :: "string \<Rightarrow> db \<Rightarrow> course option" where
  "find_course cc s = (case courses s of None \<Rightarrow> None | Some cs \<Rightarrow> find (\<lambda>r. course_code r = cc) cs)"

definition find_student :: "string \<Rightarrow> db \<Rightarrow> student option" where
  "find_student sid s = (case students s of None \<Rightarrow> None | Some ss \<Rightarrow> find (\<lambda>r. student_id r = sid) ss)"

definition enrollments_of :: "string \<Rightarrow> string \<Rightarrow> db \<Rightarrow> enrollment list" where
  "enrollments_of sid cc s =
     (case enrollments s of
        None \<Rightarrow> []
      | Some es \<Rightarrow> filter (\<lambda>r. enr_student_id r = sid \<and> enr_course_code r = cc) es)"

definition enrolled_count :: "string \<Rightarrow> db \<Rightarrow> int option" where
  "enrolled_count cc s = map_option current_enrollment (find_course cc s)"

text \<open>
  For the initializer: a table extends another when it exists wherever the other does and
  starts with all of the other's rows, unchanged and in place; and a database is
  initialized when the three tables exist and hold the seed student and a course for
  each of the ten seed codes.
\<close>

definition extends :: "'a list option \<Rightarrow> 'a list option \<Rightarrow> bool" where
  "extends old new =
     (case old of
        None \<Rightarrow> True
      | Some rs \<Rightarrow> (case new of None \<Rightarrow> False | Some rs' \<Rightarrow> take (length rs) rs' = rs))"

definition keeps_rows :: "db \<Rightarrow> db \<Rightarrow> bool" where
  "keeps_rows s s' =
     (extends (students s) (students s') \<and> extends (courses s) (courses s')
      \<and> extends (enrollments s) (enrollments s'))"

definition initialized :: "db \<Rightarrow> bool" where
  "initialized s =
     (case (students s, courses s, enrollments s) of
        (Some ss, Some cs, Some es) \<Rightarrow>
          list_ex (\<lambda>r. student_id r = ''CSC-23S-061'') ss \<and>
          list_all (\<lambda>c. list_ex (\<lambda>r. course_code r = fst c) cs)
            (semester6Courses @ semester7Courses)
      | _ \<Rightarrow> False)"

section \<open>Lists, rows and keys\<close>

lemma fst_failure [simp]: "fst (failure code msg) = code"
  by (simp add: failure_def)

lemma find_None_filter: "find P xs = None \<longleftrightarrow> filter P xs = []"
  by (induction xs) auto

lemma find_Some_filter: "find P xs = Some x \<Longrightarrow> filter P xs \<noteq> []"
  by (induction xs) (auto split: if_splits)

lemma list_ex_filter: "list_ex P xs \<longleftrightarrow> filter P xs \<noteq> []"
  by (induction xs) auto

lemma find_Some_in: "find P xs = Some x \<Longrightarrow> x \<in> set xs \<and> P x"
  by (induction xs) (auto split: if_splits)

lemma find_bump:
  "find (\<lambda>r. course_code r = cc) (bump d cc cs)
     = map_option (\<lambda>r. r\<lparr>current_enrollment := current_enrollment r + d\<rparr>)
         (find (\<lambda>r. course_code r = cc) cs)"
  by (induction cs) (auto simp: bump_def)

lemma filter_code_bump_empty:
  "filter (\<lambda>r. course_code r = cc) (bump d cc' cs) = [] \<longleftrightarrow> filter (\<lambda>r. course_code r = cc) cs = []"
  by (induction cs) (auto simp: bump_def)

lemma distinct_code_unique:
  "distinct (map course_code cs) \<Longrightarrow> x \<in> set cs \<Longrightarrow> y \<in> set cs \<Longrightarrow>
   course_code x = course_code y \<Longrightarrow> x = y"
  by (induction cs) (auto simp: image_iff)

section \<open>Enrolling in the unauthenticated variant\<close>

text \<open>The run of the handler in which every check passes, and the run that finds the
  pair already enrolled.\<close>

lemma post_enrollments_201:
  assumes "sid \<noteq> []" "cc \<noteq> []"
    and "pg_text_ok sid" "pg_text_ok cc" "int4_ok (enrollment_id_seq s + 1)"
    and "students s = Some ss" "courses s = Some cs" "enrollments s = Some es"
    and "filter (\<lambda>r. student_id r = sid) ss \<noteq> []"
    and "filter (\<lambda>r. course_code r = cc) cs \<noteq> []"
    and "filter (\<lambda>r. enr_student_id r = sid \<and> enr_course_code r = cc) es = []"
    and "filter (\<lambda>r. enrollment_id r = enrollment_id_seq s + 1) es = []"
    and "filter (\<lambda>r. course_code r = cc \<and> \<not> int4_ok (current_enrollment r + 1)) cs = []"
  shows "post_enrollments None now \<lparr>body_student_id = Some sid, body_course_code = Some cc\<rparr> s
     = ((201, JObj [(''success'', JBool True),
                    (''message'', JStr ''Enrollment created successfully''),
                    (''enrollment'', enrollment_json (new_enrollment now sid cc s))]),
        s\<lparr>enrollment_id_seq := enrollment_id_seq s + 1,
          enrollments := Some (es @ [new_enrollment now sid cc s]),
          courses := Some (bump 1 cc cs)\<rparr>)"
  using assms
  by (simp add: post_enrollments_def query_def select_student_def select_course_def
        select_enrollment_def insert_enrollment_def update_current_enrollment_def
        list_ex_filter new_enrollment_def Let_def)

lemma post_enrollments_already:
  assumes "sid \<noteq> []" "cc \<noteq> []"
    and "pg_text_ok sid" "pg_text_ok cc"
    and "students s = Some ss" "courses s = Some cs" "enrollments s = Some es"
    and "filter (\<lambda>r. student_id r = sid) ss \<noteq> []"
    and "filter (\<lambda>r. course_code r = cc) cs \<noteq> []"
    and "filter (\<lambda>r. enr_student_id r = sid \<and> enr_course_code r = cc) es \<noteq> []"
  shows "post_enrollments None now \<lparr>body_student_id = Some sid, body_course_code = Some cc\<rparr> s
     = (failure 400 ''Already enrolled in this course'', s)"
  using assms
  by (simp add: post_enrollments_def query_def select_student_def select_course_def
        select_enrollment_def)

text \<open>
  Claim C4.  On a database that satisfies the schema, with the student and the course
  present, no row for the pair yet, the counter below the top of its type and the
  sequence of enrollment ids not used up, the first
  \<^verbatim>\<open>POST /api/enrollments\<close> answers 201 with a row of status \<^verbatim>\<open>Active\<close> and raises the
  course's counter by one; the same request again answers 400 "Already enrolled in this
  course" and changes nothing, so the pair has exactly one row and the counter keeps the
  value the first call gave it.
\<close>

theorem enroll_twice:
  assumes ok: "schema_ok s" and ne: "sid \<noteq> []" "cc \<noteq> []"
    and st: "find_student sid s \<noteq> None"
    and co: "find_course cc s = Some c" and room: "current_enrollment c < 2147483647"
    and left: "enrollment_id_seq s < 2147483647"
    and fresh: "enrollments_of sid cc s = []"
    and first: "post_enrollments None t1 \<lparr>body_student_id = Some sid, body_course_code = Some cc\<rparr> s = (r1, s1)"
    and second: "post_enrollments None t2 \<lparr>body_student_id = Some sid, body_course_code = Some cc\<rparr> s1 = (r2, s2)"
  shows "r1 = (201, JObj [(''success'', JBool True),
                          (''message'', JStr ''Enrollment created successfully''),
                          (''enrollment'', enrollment_json (new_enrollment t1 sid cc s))])
       \<and> status (new_enrollment t1 sid cc s) = ''Active''
       \<and> enrolled_count cc s1 = Some (current_enrollment c + 1)
       \<and> r2 = failure 400 ''Already enrolled in this course''
       \<and> s2 = s1
       \<and> enrollments_of sid cc s2 = [new_enrollment t1 sid cc s]"
proof -
  from ok obtain ss cs es where tabs: "students s = Some ss" "courses s = Some cs" "enrollments s = Some es"
    by (auto simp: schema_ok_def split: option.splits)
  from ok tabs have dc: "distinct (map course_code cs)"
    and ids: "list_all (\<lambda>r. enrollment_id r \<le> enrollment_id_seq s) es"
    and rng: "list_all (\<lambda>r. int4_ok (current_enrollment r)) cs"
    and s_txt: "list_all (\<lambda>r. pg_text_ok (student_id r)) ss"
    and c_txt: "list_all (\<lambda>r. pg_text_ok (course_code r)) cs"
    and seq0: "0 \<le> enrollment_id_seq s"
    by (auto simp: schema_ok_def)
  from seq0 left have seq_ok: "int4_ok (enrollment_id_seq s + 1)"
    by (simp add: int4_ok_def)
  from st tabs obtain x where "find (\<lambda>r. student_id r = sid) ss = Some x"
    by (auto simp: find_student_def)
  then have "x \<in> set ss" "student_id x = sid"
    by (auto dest: find_Some_in)
  with s_txt have sid_ok: "pg_text_ok sid"
    by (auto simp: list_all_iff)
  from st tabs have s_ex: "filter (\<lambda>r. student_id r = sid) ss \<noteq> []"
    by (auto simp: find_student_def find_None_filter)
  from co tabs have c_find: "find (\<lambda>r. course_code r = cc) cs = Some c"
    by (simp add: find_course_def)
  then have c_in: "c \<in> set cs" "course_code c = cc"
    by (auto dest: find_Some_in)
  from c_txt c_in have cc_ok: "pg_text_ok cc"
    by (auto simp: list_all_iff)
  from c_find have c_ex: "filter (\<lambda>r. course_code r = cc) cs \<noteq> []"
    by (rule find_Some_filter)
  from fresh tabs have none: "filter (\<lambda>r. enr_student_id r = sid \<and> enr_course_code r = cc) es = []"
    by (simp add: enrollments_of_def)
  from ids have id_free: "filter (\<lambda>r. enrollment_id r = enrollment_id_seq s + 1) es = []"
    by (auto simp: list_all_iff filter_empty_conv)
  have in_range: "filter (\<lambda>r. course_code r = cc \<and> \<not> int4_ok (current_enrollment r + 1)) cs = []"
  proof -
    { fix r assume r: "r \<in> set cs" "course_code r = cc"
      with dc c_in have "r = c" by (auto intro: distinct_code_unique)
      moreover from rng c_in have "int4_ok (current_enrollment c)" by (auto simp: list_all_iff)
      ultimately have "int4_ok (current_enrollment r + 1)" using room by (simp add: int4_ok_def) }
    then show ?thesis by (auto simp: filter_empty_conv)
  qed
  let ?row = "new_enrollment t1 sid cc s"
  let ?s1 = "s\<lparr>enrollment_id_seq := enrollment_id_seq s + 1,
               enrollments := Some (es @ [?row]), courses := Some (bump 1 cc cs)\<rparr>"
  from post_enrollments_201 [OF ne sid_ok cc_ok seq_ok tabs s_ex c_ex none id_free in_range, of t1] first
  have r1: "r1 = (201, JObj [(''success'', JBool True),
                          (''message'', JStr ''Enrollment created successfully''),
                          (''enrollment'', enrollment_json ?row)])" and s1: "s1 = ?s1"
    by simp_all
  have cnt: "enrolled_count cc s1 = Some (current_enrollment c + 1)"
    by (simp add: s1 enrolled_count_def find_course_def find_bump c_find)
  have pair: "enrollments_of sid cc s1 = [?row]"
    by (simp add: s1 enrollments_of_def none new_enrollment_def)
  have "post_enrollments None t2 \<lparr>body_student_id = Some sid, body_course_code = Some cc\<rparr> s1
          = (failure 400 ''Already enrolled in this course'', s1)"
    by (rule post_enrollments_already [OF ne sid_ok cc_ok, where ss = ss and cs = "bump 1 cc cs" and es = "es @ [?row]"])
       (simp_all add: s1 tabs s_ex c_ex filter_code_bump_empty none new_enrollment_def)
  with second have "r2 = failure 400 ''Already enrolled in this course''" "s2 = s1"
    by simp_all
  with r1 cnt pair show ?thesis
    by (simp add: new_enrollment_def)
qed

text \<open>The example of the specification: course \<^verbatim>\<open>CSC-601\<close> with capacity 35 and counter 0,
  student \<^verbatim>\<open>CSC-23S-061\<close>.\<close>

theorem enroll_twice_witness:
  "schema_ok csc601_only
   \<and> find_course ''CSC-601'' csc601_only \<noteq> None
   \<and> enrolled_count ''CSC-601'' csc601_only = Some 0
   \<and> fst (fst (post_enrollments None 1
         \<lparr>body_student_id = Some ''CSC-23S-061'', body_course_code = Some ''CSC-601''\<rparr> csc601_only)) = 201
   \<and> enrolled_count ''CSC-601'' (snd (post_enrollments None 1
         \<lparr>body_student_id = Some ''CSC-23S-061'', body_course_code = Some ''CSC-601''\<rparr> csc601_only)) = Some 1
   \<and> post_enrollments None 2
         \<lparr>body_student_id = Some ''CSC-23S-061'', body_course_code = Some ''CSC-601''\<rparr>
         (snd (post_enrollments None 1
           \<lparr>body_student_id = Some ''CSC-23S-061'', body_course_code = Some ''CSC-601''\<rparr> csc601_only))
       = (failure 400 ''Already enrolled in this course'',
          snd (post_enrollments None 1
           \<lparr>body_student_id = Some ''CSC-23S-061'', body_course_code = Some ''CSC-601''\<rparr> csc601_only))"
proof -
  let ?b = "\<lparr>body_student_id = Some ''CSC-23S-061'', body_course_code = Some ''CSC-601''\<rparr>"
  let ?c = "seed_course 0 (''CSC-601'', ''Mobile App Development'',
        ''Android and iOS application development with modern frameworks'', 6, ''Sir Abid Ali'', 35)"
  have ok: "schema_ok csc601_only"
    by code_simp
  have left: "enrollment_id_seq csc601_only < 2147483647"
    by (simp add: csc601_only_def)
  have co: "find_course ''CSC-601'' csc601_only = Some ?c"
    by (simp add: find_course_def csc601_only_def)
  have st: "find_student ''CSC-23S-061'' csc601_only \<noteq> None"
    by (simp add: find_student_def csc601_only_def default_student_def)
  have fresh: "enrollments_of ''CSC-23S-061'' ''CSC-601'' csc601_only = []"
    by (simp add: enrollments_of_def csc601_only_def)
  have cnt: "enrolled_count ''CSC-601'' csc601_only = Some 0"
    by (simp add: enrolled_count_def co)
  from enroll_twice [OF ok _ _ st co _ left fresh, of 1 "fst (post_enrollments None 1 ?b csc601_only)"
      "snd (post_enrollments None 1 ?b csc601_only)" 2
      "fst (post_enrollments None 2 ?b (snd (post_enrollments None 1 ?b csc601_only)))"
      "snd (post_enrollments None 2 ?b (snd (post_enrollments None 1 ?b csc601_only)))"]
  show ?thesis using ok co cnt by (simp add: prod_eq_iff)
qed

section \<open>The order of the existence checks\<close>

text \<open>
  Claim C6, as the handler has it.  A body that lacks one of the two ids, or has it
  empty, is answered 400 before anything is looked up.  With both ids present, the
  student is looked up first: for a student id the database accepts as text, an unknown
  student is answered 404 "Student not found" whatever the course code is, and only for
  a known student is an unknown course (its code accepted as text) answered
  404 "Course not found".  None of these answers changes the database.  A student id
  the database refuses as text makes the first query raise, which is answered 500.
\<close>

theorem post_enrollments_check_order:
  "(falsy (body_student_id b) \<or> falsy (body_course_code b) \<longrightarrow>
      post_enrollments fault now b s
        = (failure 400 ''Student ID and Course Code are required'', s))
   \<and> (sid \<noteq> [] \<and> cc \<noteq> [] \<and> pg_text_ok sid \<and> students s \<noteq> None
        \<and> find_student sid s = None \<longrightarrow>
      post_enrollments None now \<lparr>body_student_id = Some sid, body_course_code = Some cc\<rparr> s
        = (failure 404 ''Student not found'', s))
   \<and> (sid \<noteq> [] \<and> cc \<noteq> [] \<and> pg_text_ok sid \<and> find_student sid s \<noteq> None
        \<and> pg_text_ok cc \<and> courses s \<noteq> None \<and> find_course cc s = None \<longrightarrow>
      post_enrollments None now \<lparr>body_student_id = Some sid, body_course_code = Some cc\<rparr> s
        = (failure 404 ''Course not found'', s))
   \<and> (sid \<noteq> [] \<and> cc \<noteq> [] \<and> \<not> pg_text_ok sid \<longrightarrow>
      post_enrollments fault now \<lparr>body_student_id = Some sid, body_course_code = Some cc\<rparr> s
        = (failure 500 ''Error creating enrollment'', s))"
proof -
  let ?b = "\<lparr>body_student_id = Some sid, body_course_code = Some cc\<rparr>"
  have missing: "post_enrollments fault now b s
      = (failure 400 ''Student ID and Course Code are required'', s)"
    if "falsy (body_student_id b) \<or> falsy (body_course_code b)"
    using that by (auto simp: post_enrollments_def)
  have no_student: "post_enrollments None now ?b s = (failure 404 ''Student not found'', s)"
    if "sid \<noteq> []" "cc \<noteq> []" "pg_text_ok sid" "students s \<noteq> None" "find_student sid s = None"
    using that
    by (auto simp: post_enrollments_def query_def select_student_def find_student_def
          find_None_filter)
  have no_course: "post_enrollments None now ?b s = (failure 404 ''Course not found'', s)"
    if "sid \<noteq> []" "cc \<noteq> []" "pg_text_ok sid" "find_student sid s \<noteq> None"
      "pg_text_ok cc" "courses s \<noteq> None" "find_course cc s = None"
    using that
    by (auto simp: post_enrollments_def query_def select_student_def select_course_def
          find_student_def find_course_def find_None_filter split: option.splits
          dest: find_Some_filter)
  have refused: "post_enrollments fault now ?b s = (failure 500 ''Error creating enrollment'', s)"
    if "sid \<noteq> []" "cc \<noteq> []" "\<not> pg_text_ok sid"
    using that
    by (auto simp: post_enrollments_def query_def select_student_def split: option.splits)
  from missing no_student no_course refused show ?thesis
    by blast
qed

text \<open>On the one-course database: a body with an empty course code, an unknown student
  with an unknown course, the seeded student with an unknown course, and a student id
  with a zero byte in it.\<close>

theorem post_enrollments_check_order_witness:
  "post_enrollments None 0 \<lparr>body_student_id = Some ''CSC-23S-061'', body_course_code = Some []\<rparr> csc601_only
     = (failure 400 ''Student ID and Course Code are required'', csc601_only)
   \<and> post_enrollments None 0 \<lparr>body_student_id = Some ''CSC-00X-000'', body_course_code = Some ''CSC-999''\<rparr> csc601_only
     = (failure 404 ''Student not found'', csc601_only)
   \<and> post_enrollments None 0 \<lparr>body_student_id = Some ''CSC-23S-061'', body_course_code = Some ''CSC-999''\<rparr> csc601_only
     = (failure 404 ''Course not found'', csc601_only)
   \<and> post_enrollments None 0 \<lparr>body_student_id = Some [CHR ''A'', CHR 0x00, CHR ''B''],
                                body_course_code = Some ''CSC-999''\<rparr> csc601_only
     = (failure 500 ''Error creating enrollment'', csc601_only)"
proof -
  have valid: "pg_text_ok ''CSC-00X-000''" "pg_text_ok ''CSC-23S-061''" "pg_text_ok ''CSC-999''"
    "\<not> pg_text_ok [CHR ''A'', CHR 0x00, CHR ''B'']"
    by code_simp+
  have rows: "students csc601_only \<noteq> None" "courses csc601_only \<noteq> None"
    "find_student ''CSC-00X-000'' csc601_only = None"
    "find_student ''CSC-23S-061'' csc601_only \<noteq> None"
    "find_course ''CSC-999'' csc601_only = None"
    by (simp_all add: csc601_only_def find_student_def find_course_def default_student_def)
  show ?thesis
    using post_enrollments_check_order [where
            b = "\<lparr>body_student_id = Some ''CSC-23S-061'', body_course_code = Some []\<rparr>"
            and fault = None and now = 0 and s = csc601_only
            and sid = "''CSC-00X-000''" and cc = "''CSC-999''"]
          post_enrollments_check_order [where sid = "''CSC-23S-061''" and cc = "''CSC-999''"
            and fault = None and now = 0 and s = csc601_only]
          post_enrollments_check_order [where sid = "[CHR ''A'', CHR 0x00, CHR ''B'']"
            and cc = "''CSC-999''" and fault = None and now = 0 and s = csc601_only]
          valid rows
    by simp
qed

text \<open>With neither the student nor the course in the database, the course is not the
  first thing reported missing.\<close>

theorem course_checked_first_counterexample:
  "find_course ''CSC-999'' csc601_only = None
   \<and> fst (post_enrollments None 0
          \<lparr>body_student_id = Some ''CSC-00X-000'', body_course_code = Some ''CSC-999''\<rparr> csc601_only)
       = failure 404 ''Student not found''
   \<and> failure 404 ''Student not found'' \<noteq> failure 404 ''Course not found''"
  by code_simp

section \<open>What the two handlers do to the counter\<close>

text \<open>Every answer of the enrollment handler other than 500 comes either with the
  database untouched or with both the new row and the raised counter, and keeps the
  counters equal to the numbers of active rows.\<close>

lemma query_select_student: "query fault n (select_student sid) s = (a, s') \<Longrightarrow> s' = s"
  by (auto simp: query_def select_student_def split: if_splits option.splits)

lemma query_select_course: "query fault n (select_course cc) s = (a, s') \<Longrightarrow> s' = s"
  by (auto simp: query_def select_course_def split: if_splits option.splits)

lemma query_select_enrollment: "query fault n (select_enrollment sid cc) s = (a, s') \<Longrightarrow> s' = s"
  by (auto simp: query_def select_enrollment_def split: if_splits option.splits)

lemma query_insert_enrollment_ok:
  assumes "query fault n (insert_enrollment now sid cc) s = (Inr rows, s')"
  shows "\<exists>es. enrollments s = Some es
          \<and> s' = s\<lparr>enrollment_id_seq := enrollment_id_seq s + 1,
                    enrollments := Some (es @ [new_enrollment now sid cc s])\<rparr>"
  using assms
  by (auto simp: query_def insert_enrollment_def Let_def new_enrollment_def
      split: if_splits option.splits)

lemma query_update_current_enrollment_ok:
  assumes "query fault n (update_current_enrollment d cc) s = (Inr u, s')"
  shows "\<exists>cs. courses s = Some cs \<and> s' = s\<lparr>courses := Some (bump d cc cs)\<rparr>"
  using assms
  by (auto simp: query_def update_current_enrollment_def split: if_splits option.splits)

lemma post_enrollments_outcomes:
  assumes run: "post_enrollments fault now b s = (r, s')" and ok: "fst r \<noteq> 500"
  shows "s' = s
       \<or> (\<exists>sid cc cs es. courses s = Some cs \<and> enrollments s = Some es
            \<and> s' = s\<lparr>enrollment_id_seq := enrollment_id_seq s + 1,
                      enrollments := Some (es @ [new_enrollment now sid cc s]),
                      courses := Some (bump 1 cc cs)\<rparr>)"
proof (cases "fst r = 201")
  case False
  with run ok show ?thesis
    by (auto simp: post_enrollments_def Let_def
        split: if_splits prod.splits sum.splits
        dest!: query_select_student query_select_course query_select_enrollment)
next
  case True
  with run obtain sid cc a0 s0 a1 s1 a2 s2 rows s3 u where
      q0: "query fault 0 (select_student sid) s = (a0, s0)"
    and q1: "query fault 1 (select_course cc) s0 = (a1, s1)"
    and q2: "query fault 2 (select_enrollment sid cc) s1 = (a2, s2)"
    and q3: "query fault 3 (insert_enrollment now sid cc) s2 = (Inr rows, s3)"
    and q4: "query fault 4 (update_current_enrollment 1 cc) s3 = (Inr u, s')"
    by (auto simp: post_enrollments_def Let_def
        split: if_splits prod.splits sum.splits simp del: One_nat_def)
  have "s2 = s"
    using q0 q1 q2
    by (auto dest!: query_select_student query_select_course query_select_enrollment)
  with query_insert_enrollment_ok [OF q3] obtain es where es: "enrollments s = Some es"
    and s3: "s3 = s\<lparr>enrollment_id_seq := enrollment_id_seq s + 1,
                    enrollments := Some (es @ [new_enrollment now sid cc s])\<rparr>"
    by auto
  from query_update_current_enrollment_ok [OF q4] s3 obtain cs where "courses s = Some cs"
    and "s' = s\<lparr>enrollment_id_seq := enrollment_id_seq s + 1,
                   enrollments := Some (es @ [new_enrollment now sid cc s]),
                   courses := Some (bump 1 cc cs)\<rparr>"
    by auto
  with es show ?thesis by blast
qed

lemma active_in_course_append:
  "active_in_course code (es @ [r])
     = active_in_course code es + (if enr_course_code r = code \<and> status r = ''Active'' then 1 else 0)"
  by (simp add: active_in_course_def)

lemma post_enrollments_keeps_sync:
  assumes sync: "counters_in_sync s"
    and run: "post_enrollments fault now b s = (r, s')" and ok: "fst r \<noteq> 500"
  shows "counters_in_sync s'"
proof -
  from post_enrollments_outcomes [OF run ok] show ?thesis
  proof
    assume "s' = s"
    with sync show ?thesis by simp
  next
    assume "\<exists>sid cc cs es. courses s = Some cs \<and> enrollments s = Some es
            \<and> s' = s\<lparr>enrollment_id_seq := enrollment_id_seq s + 1,
                      enrollments := Some (es @ [new_enrollment now sid cc s]),
                      courses := Some (bump 1 cc cs)\<rparr>"
    then obtain sid cc cs es where tabs: "courses s = Some cs" "enrollments s = Some es"
      and s': "s' = s\<lparr>enrollment_id_seq := enrollment_id_seq s + 1,
                      enrollments := Some (es @ [new_enrollment now sid cc s]),
                      courses := Some (bump 1 cc cs)\<rparr>"
      by blast
    from sync tabs
    have "list_all (\<lambda>c. current_enrollment c = int (active_in_course (course_code c) es)) cs"
      by (simp add: counters_in_sync_def)
    then have "list_all (\<lambda>c. current_enrollment c
                 = int (active_in_course (course_code c) (es @ [new_enrollment now sid cc s])))
               (bump 1 cc cs)"
      by (auto simp: list_all_iff bump_def active_in_course_append new_enrollment_def)
    then show ?thesis
      by (simp add: s' counters_in_sync_def)
  qed
qed

text \<open>
  The status handler, answered 200, has written the status to the rows of that id; when
  the new status is \<^verbatim>\<open>Dropped\<close> it has also lowered the counter of the row's course by
  one, whatever status the row had.  Dropping a row that was \<^verbatim>\<open>Active\<close> keeps the
  counters equal to the numbers of active rows.
\<close>

lemma query_select_enrollment_by_id:
  assumes "query fault n (select_enrollment_by_id ido) s = (Inr rows, s')"
  shows "s' = s \<and> (\<exists>i es. ido = Some i \<and> enrollments s = Some es
                      \<and> rows = filter (\<lambda>r. enrollment_id r = i) es)"
  using assms
  by (auto simp: query_def select_enrollment_by_id_def split: if_splits option.splits)

lemma query_update_status_ok:
  assumes "query fault n (update_status st (Some i)) s = (Inr rows, s')" "enrollments s = Some es"
  shows "s' = s\<lparr>enrollments := Some (set_status st i es)\<rparr>"
  using assms
  by (auto simp: query_def update_status_def split: if_splits option.splits)

lemma put_enrollment_status_outcome:
  assumes run: "put_enrollment_status fault ido b s = (r, s')" and ok: "fst r = 200"
  shows "\<exists>i st es e rest.
           ido = Some i \<and> body_status b = Some st \<and> st \<noteq> [] \<and> enrollments s = Some es
           \<and> filter (\<lambda>r. enrollment_id r = i) es = e # rest
           \<and> (if st = ''Dropped''
               then \<exists>cs. courses s = Some cs
                      \<and> s' = s\<lparr>enrollments := Some (set_status st i es),
                                courses := Some (bump (- 1) (enr_course_code e) cs)\<rparr>
               else s' = s\<lparr>enrollments := Some (set_status st i es)\<rparr>)"
proof -
  from run ok obtain st where st: "body_status b = Some st" "st \<noteq> []"
    by (cases "body_status b") (auto simp: put_enrollment_status_def split: if_splits)
  from run ok st obtain e rest s0 rows s1 where
      q0: "query fault 0 (select_enrollment_by_id ido) s = (Inr (e # rest), s0)"
    and q1: "query fault 1 (update_status st ido) s0 = (Inr rows, s1)"
    and q2: "(if st = ''Dropped''
              then query fault 2 (update_current_enrollment (- 1) (enr_course_code e)) s1
              else (Inr (), s1)) = (Inr (), s')"
    by (auto simp: put_enrollment_status_def Let_def
        split: prod.splits sum.splits list.splits simp del: One_nat_def)
  from query_select_enrollment_by_id [OF q0] obtain i es where s0: "s0 = s"
    and i: "ido = Some i" and es: "enrollments s = Some es"
    and flt: "filter (\<lambda>r. enrollment_id r = i) es = e # rest"
    by auto
  from q1 i s0 es have s1: "s1 = s\<lparr>enrollments := Some (set_status st i es)\<rparr>"
    by (auto dest: query_update_status_ok)
  show ?thesis
  proof (cases "st = ''Dropped''")
    case True
    with q2 have "query fault 2 (update_current_enrollment (- 1) (enr_course_code e)) s1 = (Inr (), s')"
      by simp
    from query_update_current_enrollment_ok [OF this] s1
    obtain cs where "courses s = Some cs"
      and "s' = s\<lparr>enrollments := Some (set_status st i es),
                     courses := Some (bump (- 1) (enr_course_code e) cs)\<rparr>"
      by auto
    with True i st es flt show ?thesis by auto
  next
    case False
    with q2 s1 have "s' = s\<lparr>enrollments := Some (set_status st i es)\<rparr>" by simp
    with False i st es flt show ?thesis by auto
  qed
qed

lemma dropped_status_always_decrements:
  assumes run: "put_enrollment_status fault (Some i) drop_body s = (r, s')" and ok: "fst r = 200"
    and es: "enrollments s = Some es" and e: "find (\<lambda>r. enrollment_id r = i) es = Some e"
  shows "enrolled_count (enr_course_code e) s'
           = map_option (\<lambda>n. n - 1) (enrolled_count (enr_course_code e) s)"
proof -
  from e obtain rest where flt: "filter (\<lambda>r. enrollment_id r = i) es = e # rest"
    by (induction es) (auto split: if_splits)
  from put_enrollment_status_outcome [OF run ok] es flt
  obtain cs where "courses s = Some cs"
    and "s' = s\<lparr>enrollments := Some (set_status ''Dropped'' i es),
                  courses := Some (bump (- 1) (enr_course_code e) cs)\<rparr>"
    by (auto simp: drop_body_def)
  then show ?thesis
    by (simp add: enrolled_count_def find_course_def find_bump option.map_comp comp_def)
qed

lemma set_status_other: "i \<notin> enrollment_id ` set es \<Longrightarrow> set_status st i es = es"
  by (induction es) (auto simp: set_status_def)

lemma active_after_drop:
  assumes "distinct (map enrollment_id es)" "e \<in> set es" "enrollment_id e = i"
    and "status e = ''Active''"
  shows "int (active_in_course code (set_status ''Dropped'' i es))
           = int (active_in_course code es) - (if enr_course_code e = code then 1 else 0)"
  using assms
proof (induction es)
  case Nil
  then show ?case by simp
next
  case (Cons x xs)
  show ?case
  proof (cases "x = e")
    case True
    with Cons.prems have "i \<notin> enrollment_id ` set xs" by auto
    then have "set_status ''Dropped'' i xs = xs" by (rule set_status_other)
    then have "set_status ''Dropped'' i (x # xs) = x\<lparr>status := ''Dropped''\<rparr> # xs"
      using True Cons.prems by (simp add: set_status_def)
    with True Cons.prems show ?thesis
      by (simp add: active_in_course_def)
  next
    case False
    with Cons.prems have in_xs: "e \<in> set xs" and "enrollment_id x \<noteq> i"
      by auto
    then have "set_status ''Dropped'' i (x # xs) = x # set_status ''Dropped'' i xs"
      by (simp add: set_status_def)
    moreover from Cons.IH [OF _ in_xs] Cons.prems
    have "int (active_in_course code (set_status ''Dropped'' i xs))
           = int (active_in_course code xs) - (if enr_course_code e = code then 1 else 0)"
      by simp
    ultimately show ?thesis
      by (auto simp: active_in_course_def split: if_splits)
  qed
qed

lemma drop_active_keeps_sync:
  assumes ok: "schema_ok s" and sync: "counters_in_sync s"
    and es: "enrollments s = Some es" and e: "find (\<lambda>r. enrollment_id r = i) es = Some e"
    and active: "status e = ''Active''"
    and run: "put_enrollment_status fault (Some i) drop_body s = (r, s')" and fin: "fst r = 200"
  shows "counters_in_sync s'"
proof -
  from e have e_in: "e \<in> set es" "enrollment_id e = i"
    by (auto dest: find_Some_in)
  from e obtain rest where flt: "filter (\<lambda>r. enrollment_id r = i) es = e # rest"
    by (induction es) (auto split: if_splits)
  from put_enrollment_status_outcome [OF run fin] es flt
  obtain cs where cs: "courses s = Some cs"
    and s': "s' = s\<lparr>enrollments := Some (set_status ''Dropped'' i es),
                  courses := Some (bump (- 1) (enr_course_code e) cs)\<rparr>"
    by (auto simp: drop_body_def)
  from ok es have dist: "distinct (map enrollment_id es)"
    by (auto simp: schema_ok_def split: option.splits)
  from sync cs es
  have "list_all (\<lambda>c. current_enrollment c = int (active_in_course (course_code c) es)) cs"
    by (simp add: counters_in_sync_def)
  then have "list_all (\<lambda>c. current_enrollment c
               = int (active_in_course (course_code c) (set_status ''Dropped'' i es)))
             (bump (- 1) (enr_course_code e) cs)"
    by (auto simp: list_all_iff bump_def active_after_drop [OF dist e_in active])
  then show ?thesis
    by (simp add: s' counters_in_sync_def)
qed

section \<open>Dropping an enrollment\<close>

text \<open>
  Claim C5 at the input where the handler departs from it.  The seeded student enrolls in
  \<^verbatim>\<open>CSC-601\<close> (counter 1) and the enrollment is dropped (status \<^verbatim>\<open>Dropped\<close>, counter 0).
  \<^verbatim>\<open>PUT /api/enrollments/1/status\<close> with \<^verbatim>\<open>Dropped\<close> once more, on the row that is
  already dropped, is answered 200 and lowers the counter again, to \<open>- 1\<close>: the
  decrement depends on the new status only, not on the status the row had.
\<close>

theorem double_drop_decrements_twice:
  "enrolled_count ''CSC-601'' enrolled_once = Some 1
   \<and> map status (enrollments_of ''CSC-23S-061'' ''CSC-601'' enrolled_once) = [''Active'']
   \<and> fst (fst (put_enrollment_status None (Some 1) drop_body enrolled_once)) = 200
   \<and> enrolled_count ''CSC-601'' dropped_once = Some 0
   \<and> map status (enrollments_of ''CSC-23S-061'' ''CSC-601'' dropped_once) = [''Dropped'']
   \<and> fst (fst (put_enrollment_status None (Some 1) drop_body dropped_once)) = 200
   \<and> enrolled_count ''CSC-601'' dropped_twice = Some (- 1)"
  by code_simp

text \<open>The status write and the decrement are two statements: when the backend is lost
  between them the row is \<^verbatim>\<open>Dropped\<close> and the counter is still 1.\<close>

lemma status_written_counter_kept:
  "fst (fst (put_enrollment_status (Some 2) (Some 1) drop_body enrolled_once)) = 500
   \<and> map status (enrollments_of ''CSC-23S-061'' ''CSC-601''
        (snd (put_enrollment_status (Some 2) (Some 1) drop_body enrolled_once))) = [''Dropped'']
   \<and> enrolled_count ''CSC-601''
        (snd (put_enrollment_status (Some 2) (Some 1) drop_body enrolled_once)) = Some 1"
  by code_simp

section \<open>The counter and the active rows\<close>

text \<open>
  Claim C1 at the same input.  After the enrollment and after the first drop every
  counter equals the number of \<^verbatim>\<open>Active\<close> rows of its course; after the second drop the
  counter of \<^verbatim>\<open>CSC-601\<close> is \<open>- 1\<close> while the course has no active row, on a database that
  still satisfies every constraint of the schema.
\<close>

theorem counter_out_of_sync_after_second_drop:
  "schema_ok enrolled_once \<and> counters_in_sync enrolled_once
   \<and> schema_ok dropped_once \<and> counters_in_sync dropped_once
   \<and> schema_ok dropped_twice \<and> \<not> counters_in_sync dropped_twice
   \<and> enrolled_count ''CSC-601'' dropped_twice = Some (- 1)
   \<and> map_option (active_in_course ''CSC-601'') (enrollments dropped_twice) = Some 0
   \<and> map_option (active_enrollments ''CSC-23S-061'') (enrollments dropped_twice) = Some 0"
  by code_simp

section \<open>Atomicity of enrolling\<close>

text \<open>
  Claim C2 at the input where the unauthenticated handler departs from it: the backend
  is lost between the \<^verbatim>\<open>INSERT\<close> (query 3) and the \<^verbatim>\<open>UPDATE\<close> (query 4).  The handler
  answers 500, and the database keeps the new enrollment row while the counter of the
  course is still 0.
\<close>

theorem enrollment_without_counter_bump:
  "post_enrollments (Some 4) 1 haider_csc601 csc601_only
     = (failure 500 ''Error creating enrollment'',
        csc601_only\<lparr>enrollment_id_seq := 1,
                    enrollments := Some [new_enrollment 1 ''CSC-23S-061'' ''CSC-601'' csc601_only]\<rparr>)
   \<and> enrolled_count ''CSC-601'' csc601_only = Some 0
   \<and> enrolled_count ''CSC-601'' (snd (post_enrollments (Some 4) 1 haider_csc601 csc601_only)) = Some 0
   \<and> length (enrollments_of ''CSC-23S-061'' ''CSC-601''
               (snd (post_enrollments (Some 4) 1 haider_csc601 csc601_only))) = 1
   \<and> \<not> counters_in_sync (snd (post_enrollments (Some 4) 1 haider_csc601 csc601_only))"
  by code_simp

text \<open>
  The authenticated handler does what the claim asks.  Whichever query fails, every
  answer other than 201 leaves the three tables as they were, and the answer 201 comes
  with both the new row and the raised counter.
\<close>

lemma rollback_tables [simp]:
  "users (rollback s w) = users s"
  "auth_courses (rollback s w) = auth_courses s"
  "auth_enrollments (rollback s w) = auth_enrollments s"
  by (simp_all add: rollback_def)

lemma enroll_transaction_rolls_back:
  assumes "enroll_transaction fault now uid cid course s = (r, s')" "fst r \<noteq> 201"
  shows "users s' = users s \<and> auth_courses s' = auth_courses s
         \<and> auth_enrollments s' = auth_enrollments s"
  using assms
  by (auto simp: enroll_transaction_def split: if_splits prod.splits sum.splits)

lemma query_select_course_for_update:
  "query fault n (select_course_for_update i) s = (a, s') \<Longrightarrow> s' = s"
  by (auto simp: query_def select_course_for_update_def split: if_splits option.splits)

lemma query_no_rows: "query fault n no_rows s = (a, s') \<Longrightarrow> s' = s"
  by (auto simp: query_def no_rows_def split: if_splits)

lemma enroll_all_or_nothing:
  assumes "enroll fault now u courseId s = (r, s')" "fst r \<noteq> 201"
  shows "users s' = users s \<and> auth_courses s' = auth_courses s
         \<and> auth_enrollments s' = auth_enrollments s"
  using assms
  by (auto simp: enroll_def
      split: if_splits prod.splits sum.splits list.splits
      dest!: query_select_course_for_update query_no_rows
      dest: enroll_transaction_rolls_back)


lemma query_select_auth_enrollment:
  "query fault n (select_auth_enrollment uid cid) s = (a, s') \<Longrightarrow> s' = s"
  by (auto simp: query_def select_auth_enrollment_def split: if_splits option.splits)

lemma query_insert_auth_enrollment_ok:
  assumes "query fault n (insert_auth_enrollment now uid cid) s = (Inr rows, s')"
  shows "\<exists>es row. auth_enrollments s = Some es \<and> auth_enrollments s' = Some (es @ [row])
           \<and> ae_user_id row = uid \<and> ae_course_id row = cid \<and> ae_status row = ''active''
           \<and> auth_courses s' = auth_courses s \<and> users s' = users s"
  using assms
  by (auto simp: query_def insert_auth_enrollment_def Let_def split: if_splits option.splits)

lemma query_update_enrolled_ok:
  assumes "query fault n (update_enrolled cid) s = (Inr u, s')"
  shows "\<exists>cs. auth_courses s = Some cs
           \<and> auth_courses s' = Some (map (\<lambda>r. if ac_id r = cid
                                                then r\<lparr>ac_enrolled := ac_enrolled r + 1\<rparr>
                                                else r) cs)
           \<and> auth_enrollments s' = auth_enrollments s \<and> users s' = users s"
  using assms
  by (auto simp: query_def update_enrolled_def split: if_splits option.splits)

lemma enroll_transaction_commits:
  assumes "enroll_transaction fault now uid cid course s = (r, s')" "fst r = 201"
  shows "\<exists>es cs row. auth_enrollments s = Some es \<and> auth_courses s = Some cs
           \<and> ae_user_id row = uid \<and> ae_course_id row = cid \<and> ae_status row = ''active''
           \<and> auth_enrollments s' = Some (es @ [row])
           \<and> auth_courses s' = Some (map (\<lambda>r. if ac_id r = cid
                                                then r\<lparr>ac_enrolled := ac_enrolled r + 1\<rparr>
                                                else r) cs)"
proof -
  from assms obtain rows0 w0 rows w1 w2 w3 u u' where
      b: "query fault 2 no_rows s = (Inr u', w0)"
    and sel: "query fault 3 (select_auth_enrollment uid cid) w0 = (Inr rows0, w1)"
    and ins: "query fault 4 (insert_auth_enrollment now uid cid) w1 = (Inr rows, w2)"
    and upd: "query fault 5 (update_enrolled cid) w2 = (Inr u, w3)"
    and com: "query fault 6 no_rows w3 = (Inr u, s')"
    by (auto simp: enroll_transaction_def split: if_splits prod.splits sum.splits)
  from b have "w0 = s" by (rule query_no_rows)
  moreover from sel have "w1 = w0" by (rule query_select_auth_enrollment)
  moreover from com have "s' = w3" by (rule query_no_rows)
  ultimately show ?thesis
    using query_insert_auth_enrollment_ok [OF ins] query_update_enrolled_ok [OF upd]
    by auto
qed

lemma enroll_commits:
  assumes "enroll fault now u courseId s = (r, s')" "fst r = 201"
  shows "\<exists>es cs row. auth_enrollments s = Some es \<and> auth_courses s = Some cs
           \<and> ae_user_id row = ident_id u \<and> ae_course_id row = num_or courseId 0
           \<and> ae_status row = ''active''
           \<and> auth_enrollments s' = Some (es @ [row])
           \<and> auth_courses s' = Some (map (\<lambda>r. if ac_id r = num_or courseId 0
                                                then r\<lparr>ac_enrolled := ac_enrolled r + 1\<rparr>
                                                else r) cs)"
  using assms
  by (auto simp: enroll_def
      split: if_splits prod.splits sum.splits list.splits
      dest!: query_select_course_for_update query_no_rows
      dest: enroll_transaction_commits)

section \<open>The capacity check\<close>

text \<open>
  Claim C3 at the input where the unauthenticated handler departs from it.  The only
  seat of \<^verbatim>\<open>CSC-699\<close> is taken (counter 1, capacity 1); a second student, not yet
  enrolled, is answered 201 and the counter becomes 2.  The handler never reads
  \<^verbatim>\<open>max_capacity\<close>.
\<close>

theorem full_course_accepts_enrollment:
  "schema_ok full_course_db \<and> counters_in_sync full_course_db
   \<and> map_option max_capacity (find_course ''CSC-699'' full_course_db) = Some 1
   \<and> enrolled_count ''CSC-699'' full_course_db = Some 1
   \<and> enrollments_of ''CSC-23S-062'' ''CSC-699'' full_course_db = []
   \<and> fst (fst (post_enrollments None 1
        \<lparr>body_student_id = Some ''CSC-23S-062'', body_course_code = Some ''CSC-699''\<rparr> full_course_db)) = 201
   \<and> enrolled_count ''CSC-699'' (snd (post_enrollments None 1
        \<lparr>body_student_id = Some ''CSC-23S-062'', body_course_code = Some ''CSC-699''\<rparr> full_course_db)) = Some 2"
  by code_simp

text \<open>The authenticated handler refuses a full course before it touches anything.\<close>

lemma enroll_full_course:
  assumes "cid \<noteq> 0" "int4_ok cid" "auth_courses s = Some cs"
    and "find (\<lambda>r. ac_id r = cid) cs = Some c"
    and "ac_capacity c \<le> ac_enrolled c" "fault \<noteq> Some 0"
  shows "enroll fault now u (Some cid) s = (failure 400 ''Course is full'', s)"
proof -
  from assms(4) obtain rest where "filter (\<lambda>r. ac_id r = cid) cs = c # rest"
    by (induction cs) (auto split: if_splits)
  with assms show ?thesis
    by (simp add: enroll_def query_def select_course_for_update_def)
qed

section \<open>The schema initializer\<close>

text \<open>Every statement of the initializer, whether it succeeds or fails, leaves each
  table with the rows it had.\<close>

lemma extends_refl [simp]: "extends t t"
  by (simp add: extends_def split: option.splits)

lemma extends_append [simp]: "extends (Some rs) (Some (rs @ extra))"
  by (simp add: extends_def)

lemma extends_None [simp]: "extends None t"
  by (simp add: extends_def)

lemma take_prefix_trans:
  assumes "take (length xs) ys = xs" "take (length ys) zs = ys"
  shows "take (length xs) zs = xs"
proof -
  have "length (take (length xs) ys) \<le> length ys"
    by simp
  with assms(1) have "length xs \<le> length ys"
    by simp
  then have "take (length xs) zs = take (length xs) (take (length ys) zs)"
    by (simp add: min_def)
  with assms show ?thesis by simp
qed

lemma extends_trans: "extends a b \<Longrightarrow> extends b c \<Longrightarrow> extends a c"
  by (auto simp: extends_def split: option.splits intro: take_prefix_trans)

lemma keeps_rows_refl [simp]: "keeps_rows s s"
  by (simp add: keeps_rows_def)

lemma keeps_rows_trans: "keeps_rows a b \<Longrightarrow> keeps_rows b c \<Longrightarrow> keeps_rows a c"
  by (auto simp: keeps_rows_def intro: extends_trans)

lemma query_create_students: "query fault n create_students s = (a, s') \<Longrightarrow> keeps_rows s s'"
  by (auto simp: query_def create_students_def keeps_rows_def split: if_splits option.splits)

lemma query_create_courses: "query fault n create_courses s = (a, s') \<Longrightarrow> keeps_rows s s'"
  by (auto simp: query_def create_courses_def keeps_rows_def split: if_splits option.splits)

lemma query_create_enrollments: "query fault n create_enrollments s = (a, s') \<Longrightarrow> keeps_rows s s'"
  by (auto simp: query_def create_enrollments_def keeps_rows_def split: if_splits option.splits)

lemma query_insert_default_student:
  "query fault n (insert_default_student now) s = (a, s') \<Longrightarrow> keeps_rows s s'"
  by (auto simp: query_def insert_default_student_def keeps_rows_def split: if_splits option.splits)

lemma query_insert_course: "query fault n (insert_course now c) s = (a, s') \<Longrightarrow> keeps_rows s s'"
  by (auto simp: query_def insert_course_def keeps_rows_def split: if_splits option.splits)

lemma insert_courses_keeps: "insert_courses fault n now seeds s = (a, s') \<Longrightarrow> keeps_rows s s'"
proof (induction seeds arbitrary: s n)
  case Nil
  then show ?case by simp
next
  case (Cons c seeds)
  then show ?case
    by (auto split: prod.splits sum.splits
          dest!: query_insert_course intro: keeps_rows_trans)
qed

lemma query_count_rows: "query fault n (count_rows tab) s = (a, s') \<Longrightarrow> s' = s"
  by (auto simp: query_def count_rows_def split: if_splits option.splits)

lemma initializeDatabase_keeps_rows: "keeps_rows s (snd (initializeDatabase fault now s))"
proof -
  obtain a0 s0 where q0: "query fault 0 create_students s = (a0, s0)" by fastforce
  obtain a1 s1 where q1: "query fault 1 create_courses s0 = (a1, s1)" by fastforce
  obtain a2 s2 where q2: "query fault 2 create_enrollments s1 = (a2, s2)" by fastforce
  obtain a3 s3 where q3: "query fault 3 (insert_default_student now) s2 = (a3, s3)" by fastforce
  obtain a4 s4 where q4: "insert_courses fault 4 now semester6Courses s3 = (a4, s4)" by fastforce
  obtain a5 s5 where q5: "insert_courses fault 9 now semester7Courses s4 = (a5, s5)" by fastforce
  obtain a6 s6 where q6: "query fault 14 (count_rows students) s5 = (a6, s6)" by fastforce
  obtain a7 s7 where q7: "query fault 15 (count_rows courses) s6 = (a7, s7)" by fastforce
  obtain a8 s8 where q8: "query fault 16 (count_rows enrollments) s7 = (a8, s8)" by fastforce
  have k0: "keeps_rows s s0" using q0 by (rule query_create_students)
  have k1: "keeps_rows s s1" using k0 query_create_courses [OF q1] by (rule keeps_rows_trans)
  have k2: "keeps_rows s s2" using k1 query_create_enrollments [OF q2] by (rule keeps_rows_trans)
  have k3: "keeps_rows s s3" using k2 query_insert_default_student [OF q3] by (rule keeps_rows_trans)
  have k4: "keeps_rows s s4" using k3 insert_courses_keeps [OF q4] by (rule keeps_rows_trans)
  have k5: "keeps_rows s s5" using k4 insert_courses_keeps [OF q5] by (rule keeps_rows_trans)
  have e: "s6 = s5" "s7 = s6" "s8 = s7"
    using q6 q7 q8 by (auto dest: query_count_rows)
  have k8: "keeps_rows s s6" "keeps_rows s s7" "keeps_rows s s8"
    using k5 e by simp_all
  show ?thesis
    unfolding initializeDatabase_def
    by (simp add: q0 q1 q2 q3 q4 q5 q6 q7 q8 k0 k1 k2 k3 k4 k5 k8 split: sum.splits
          del: One_nat_def)
qed

text \<open>A run in which the backend stays reachable never fails and ends initialized; on
  an initialized database such a run changes nothing.\<close>

lemma query_None [simp]: "query None n stmt s = stmt s"
  by (simp add: query_def)

lemma insert_courses_present:
  assumes "courses s = Some cs" "list_all (\<lambda>c. list_ex (\<lambda>r. course_code r = fst c) cs) seeds"
  shows "insert_courses None n now seeds s = (Inr (), s)"
  using assms
  by (induction seeds arbitrary: n) (simp_all add: insert_course_def)

lemma initializeDatabase_initialized:
  assumes "initialized s"
  shows "initializeDatabase None now s = (None, s)"
proof -
  from assms obtain ss cs es where tabs: "students s = Some ss" "courses s = Some cs" "enrollments s = Some es"
    and st: "list_ex (\<lambda>r. student_id r = ''CSC-23S-061'') ss"
    and c6: "list_all (\<lambda>c. list_ex (\<lambda>r. course_code r = fst c) cs) semester6Courses"
    and c7: "list_all (\<lambda>c. list_ex (\<lambda>r. course_code r = fst c) cs) semester7Courses"
    by (auto simp: initialized_def split: option.splits)
  have "insert_default_student now s = (Inr (), s)"
    using tabs st by (simp add: insert_default_student_def default_student_def)
  then show ?thesis
    unfolding initializeDatabase_def
    by (simp add: tabs create_students_def create_courses_def create_enrollments_def
          insert_courses_present [OF tabs(2) c6] insert_courses_present [OF tabs(2) c7]
          count_rows_def)
qed

lemma insert_courses_None:
  assumes "courses s = Some cs"
  shows "\<exists>cs'. insert_courses None n now seeds s = (Inr (), s\<lparr>courses := Some cs'\<rparr>)
           \<and> list_all (\<lambda>c. list_ex (\<lambda>r. course_code r = fst c) cs') seeds
           \<and> (\<forall>code. list_ex (\<lambda>r. course_code r = code) cs \<longrightarrow> list_ex (\<lambda>r. course_code r = code) cs')"
  using assms
proof (induction seeds arbitrary: s cs n)
  case Nil
  then have "s\<lparr>courses := Some cs\<rparr> = s" by simp
  then show ?case by (intro exI [of _ cs]) simp
next
  case (Cons c seeds)
  let ?cs1 = "if list_ex (\<lambda>r. course_code r = fst c) cs then cs else cs @ [seed_course now c]"
  have step: "insert_course now c s = (Inr (), s\<lparr>courses := Some ?cs1\<rparr>)"
    using Cons.prems by (simp add: insert_course_def)
  have here: "list_ex (\<lambda>r. course_code r = fst c) ?cs1"
    by (cases c) auto
  have mono: "\<And>code. list_ex (\<lambda>r. course_code r = code) cs \<Longrightarrow> list_ex (\<lambda>r. course_code r = code) ?cs1"
    by auto
  from Cons.IH [of "s\<lparr>courses := Some ?cs1\<rparr>" ?cs1 "Suc n"]
  obtain cs' where rest: "insert_courses None (Suc n) now seeds (s\<lparr>courses := Some ?cs1\<rparr>)
        = (Inr (), s\<lparr>courses := Some cs'\<rparr>)"
    and all: "list_all (\<lambda>c. list_ex (\<lambda>r. course_code r = fst c) cs') seeds"
    and keep: "\<And>code. list_ex (\<lambda>r. course_code r = code) ?cs1 \<Longrightarrow> list_ex (\<lambda>r. course_code r = code) cs'"
    by auto
  show ?case
    using step rest all keep [OF here] keep [OF mono]
    by (intro exI [of _ cs']) simp
qed


lemma initializeDatabase_first_run:
  "fst (initializeDatabase None now s) = None \<and> initialized (snd (initializeDatabase None now s))"
proof -
  define s0 where "s0 = snd (create_students s)"
  have q0: "create_students s = (Inr (), s0)"
    and t0: "students s0 \<noteq> None"
    by (auto simp: s0_def create_students_def split: option.splits)
  define s1 where "s1 = snd (create_courses s0)"
  have q1: "create_courses s0 = (Inr (), s1)"
    and t1: "students s1 \<noteq> None" "courses s1 \<noteq> None"
    using t0 by (auto simp: s1_def create_courses_def split: option.splits)
  define s2 where "s2 = snd (create_enrollments s1)"
  have q2: "create_enrollments s1 = (Inr (), s2)"
    and t2: "students s2 \<noteq> None" "courses s2 \<noteq> None" "enrollments s2 \<noteq> None"
    using t1 by (auto simp: s2_def create_enrollments_def split: option.splits)
  define s3 where "s3 = snd (insert_default_student now s2)"
  from t2 obtain ss2 where ss2: "students s2 = Some ss2" by auto
  have q3: "insert_default_student now s2 = (Inr (), s3)"
    using ss2 by (simp add: s3_def insert_default_student_def)
  obtain ss3 where ss3: "students s3 = Some ss3"
    and st: "list_ex (\<lambda>r. student_id r = ''CSC-23S-061'') ss3"
    using ss2 by (cases "list_ex (\<lambda>r. student_id r = ''CSC-23S-061'') ss2")
      (auto simp: s3_def insert_default_student_def default_student_def)
  from t2 ss2 obtain cs3 es3 where tabs3: "courses s3 = Some cs3" "enrollments s3 = Some es3"
    by (auto simp: s3_def insert_default_student_def)
  from insert_courses_None [OF tabs3(1), of 4 now semester6Courses]
  obtain cs4 where q4: "insert_courses None 4 now semester6Courses s3 = (Inr (), s3\<lparr>courses := Some cs4\<rparr>)"
    and all6: "list_all (\<lambda>c. list_ex (\<lambda>r. course_code r = fst c) cs4) semester6Courses"
    by auto
  let ?s4 = "s3\<lparr>courses := Some cs4\<rparr>"
  have c4: "courses ?s4 = Some cs4" by simp
  from insert_courses_None [OF c4, of 9 now semester7Courses]
  obtain cs5 where q5: "insert_courses None 9 now semester7Courses ?s4 = (Inr (), s3\<lparr>courses := Some cs5\<rparr>)"
    and all7: "list_all (\<lambda>c. list_ex (\<lambda>r. course_code r = fst c) cs5) semester7Courses"
    and keep: "\<And>code. list_ex (\<lambda>r. course_code r = code) cs4 \<Longrightarrow> list_ex (\<lambda>r. course_code r = code) cs5"
    by auto
  from all6 keep have all6': "list_all (\<lambda>c. list_ex (\<lambda>r. course_code r = fst c) cs5) semester6Courses"
    by (simp add: list_all_iff)
  let ?s5 = "s3\<lparr>courses := Some cs5\<rparr>"
  have run: "initializeDatabase None now s = (None, ?s5)"
    unfolding initializeDatabase_def
    by (simp add: q0 q1 q2 q3 q4 q5 count_rows_def ss3 tabs3 del: One_nat_def)
  have "initialized ?s5"
    using ss3 tabs3 st all6' all7 by (simp add: initialized_def)
  with run show ?thesis by simp
qed

text \<open>On an empty store the initializer leaves the seed student, the ten seed courses and
  no enrollment, within the constraints of the schema and with every counter in
  sync.\<close>

lemma seeded_db_ok:
  "fst (initializeDatabase None 0 empty_db) = None
   \<and> schema_ok seeded_db \<and> counters_in_sync seeded_db \<and> initialized seeded_db
   \<and> map_option (map student_id) (students seeded_db) = Some [''CSC-23S-061'']
   \<and> map_option (map course_code) (courses seeded_db)
       = Some [''CSC-601'', ''CSC-602'', ''CSC-603'', ''CSC-604'', ''CSC-605'',
               ''CSC-701'', ''CSC-702'', ''CSC-703'', ''CSC-704'', ''CSC-705'']
   \<and> enrollments seeded_db = Some []"
  by code_simp

text \<open>
  Claim C7.  Running \<^verbatim>\<open>initializeDatabase\<close> of \<^verbatim>\<open>src/database.js\<close> a second time, after a
  first run on any database, reports no error and leaves the database exactly as the
  first run left it, whatever the clock reads in either run.  And a run, complete or cut
  short by a failing query, keeps every table that existed and every row it held,
  unchanged and in place.
\<close>

theorem initializeDatabase_idempotent:
  "initializeDatabase None t2 (snd (initializeDatabase None t1 s))
     = (None, snd (initializeDatabase None t1 s))
   \<and> keeps_rows s (snd (initializeDatabase fault t1 s))"
  using initializeDatabase_first_run [of t1 s] initializeDatabase_keeps_rows [of s fault t1]
  by (simp add: initializeDatabase_initialized)

text \<open>On the database with one student, one course and one enrollment.\<close>

theorem initializeDatabase_idempotent_witness:
  "initializeDatabase None 8 (snd (initializeDatabase None 7 enrolled_once))
     = (None, snd (initializeDatabase None 7 enrolled_once))
   \<and> keeps_rows enrolled_once (snd (initializeDatabase (Some 6) 7 enrolled_once))"
  using initializeDatabase_idempotent [of 8 7 enrolled_once "Some 6"]
  by simp

section \<open>The authentication middleware\<close>

text \<open>
  Claim C8, as the middleware has it.  For a request that carries a token, a token that
  \<^verbatim>\<open>jwt.verify\<close> rejects and a token that verifies for a user id with no row in \<^verbatim>\<open>users\<close>
  are told apart by the message only ("Invalid or expired token" against "User not
  found"): both are answered with status 403.  "User not found" is the answer when the
  query for the user has run and returned nothing; when that query raises (the backend
  is lost, the table is missing, or the id of the token is no \<^verbatim>\<open>INTEGER\<close>) the \<^verbatim>\<open>catch\<close>
  answers as for a rejected token.  The one failure with a status of its own is the
  missing token, 401.
\<close>

theorem authenticateToken_failures:
  "(falsy (bearer_token h) \<longrightarrow>
      authenticateToken verify fault h s = Inl (failure 401 ''Access token required''))
   \<and> (\<forall>tok. bearer_token h = Some tok \<and> tok \<noteq> [] \<and> verify tok = None \<longrightarrow>
          authenticateToken verify fault h s = Inl (failure 403 ''Invalid or expired token''))
   \<and> (\<forall>tok p us. bearer_token h = Some tok \<and> tok \<noteq> [] \<and> verify tok = Some p
          \<and> fault = None \<and> users s = Some us \<and> int4_ok (jwt_id p)
          \<and> \<not> list_ex (\<lambda>r. u_id r = jwt_id p) us \<longrightarrow>
          authenticateToken verify fault h s = Inl (failure 403 ''User not found''))
   \<and> (\<forall>tok p. bearer_token h = Some tok \<and> tok \<noteq> [] \<and> verify tok = Some p
          \<and> (fault = Some 0 \<or> users s = None \<or> \<not> int4_ok (jwt_id p)) \<longrightarrow>
          authenticateToken verify fault h s = Inl (failure 403 ''Invalid or expired token''))
   \<and> fst (failure 403 ''Invalid or expired token'') = fst (failure 403 ''User not found'')
   \<and> failure 403 ''Invalid or expired token'' \<noteq> failure 403 ''User not found''"
proof -
  have absent: "authenticateToken verify fault h s = Inl (failure 401 ''Access token required'')"
    if "falsy (bearer_token h)"
    using that by (simp add: authenticateToken_def)
  have rejected: "authenticateToken verify fault h s = Inl (failure 403 ''Invalid or expired token'')"
    if "bearer_token h = Some tok" "tok \<noteq> []" "verify tok = None" for tok
    using that by (simp add: authenticateToken_def)
  have gone: "authenticateToken verify fault h s = Inl (failure 403 ''User not found'')"
    if "bearer_token h = Some tok" "tok \<noteq> []" "verify tok = Some p" "fault = None"
      "users s = Some us" "int4_ok (jwt_id p)" "\<not> list_ex (\<lambda>r. u_id r = jwt_id p) us"
    for tok p us
    using that
    by (simp add: authenticateToken_def query_def select_identity_def list_ex_filter)
  have raised: "authenticateToken verify fault h s = Inl (failure 403 ''Invalid or expired token'')"
    if "bearer_token h = Some tok" "tok \<noteq> []" "verify tok = Some p"
      "fault = Some 0 \<or> users s = None \<or> \<not> int4_ok (jwt_id p)"
    for tok p
    using that
    by (auto simp: authenticateToken_def query_def select_identity_def split: option.splits)
  have "fst (failure 403 ''Invalid or expired token'') = fst (failure 403 ''User not found'')"
    "failure 403 ''Invalid or expired token'' \<noteq> failure 403 ''User not found''"
    by (simp_all add: failure_def)
  with absent rejected gone raised show ?thesis
    by blast
qed

text \<open>A request without the header, a token that does not verify, the token of user 7
  on a database whose only user is user 1, and a token that verifies for the id
  99999999999.\<close>

theorem authenticateToken_failures_witness:
  "authenticateToken sample_verify None None admin_only
     = Inl (failure 401 ''Access token required'')
   \<and> authenticateToken (\<lambda>t. None) None (Some ''Bearer expired.token'') admin_only
     = Inl (failure 403 ''Invalid or expired token'')
   \<and> authenticateToken sample_verify None (Some ''Bearer iiiiiii'') admin_only
     = Inl (failure 403 ''User not found'')
   \<and> authenticateToken
        (\<lambda>t. Some \<lparr>jwt_id = 99999999999, jwt_email = [], jwt_role = [], jwt_name = []\<rparr>)
        None (Some ''Bearer forged.token'') admin_only
     = Inl (failure 403 ''Invalid or expired token'')"
proof -
  have t1: "bearer_token (Some ''Bearer expired.token'') = Some ''expired.token''"
    by (simp add: bearer_token_def)
  have t2: "bearer_token (Some ''Bearer iiiiiii'') = Some ''iiiiiii''"
    by (simp add: bearer_token_def)
  have t3: "bearer_token (Some ''Bearer forged.token'') = Some ''forged.token''"
    by (simp add: bearer_token_def)
  have v2: "sample_verify ''iiiiiii''
              = Some \<lparr>jwt_id = 7, jwt_email = [], jwt_role = [], jwt_name = []\<rparr>"
    by (simp add: sample_verify_def)
  have none: "authenticateToken sample_verify None None admin_only
                = Inl (failure 401 ''Access token required'')"
    using authenticateToken_failures [of None sample_verify None admin_only]
    by (simp add: bearer_token_def)
  have bad: "authenticateToken (\<lambda>t. None) None (Some ''Bearer expired.token'') admin_only
               = Inl (failure 403 ''Invalid or expired token'')"
    using authenticateToken_failures [of "Some ''Bearer expired.token''" "\<lambda>t. None" None admin_only] t1
    by simp
  have gone: "authenticateToken sample_verify None (Some ''Bearer iiiiiii'') admin_only
                = Inl (failure 403 ''User not found'')"
    using authenticateToken_failures [of "Some ''Bearer iiiiiii''" sample_verify None admin_only] t2 v2
    by (simp add: admin_only_def int4_ok_def)
  have wide: "authenticateToken
        (\<lambda>t. Some \<lparr>jwt_id = 99999999999, jwt_email = [], jwt_role = [], jwt_name = []\<rparr>)
        None (Some ''Bearer forged.token'') admin_only
     = Inl (failure 403 ''Invalid or expired token'')"
    using authenticateToken_failures [of "Some ''Bearer forged.token''"
        "\<lambda>t. Some \<lparr>jwt_id = 99999999999, jwt_email = [], jwt_role = [], jwt_name = []\<rparr>"
        None admin_only] t3
    by (simp add: int4_ok_def)
  from none bad gone wide show ?thesis by simp
qed

text \<open>The two failures at those inputs carry the same status code.\<close>

theorem auth_failures_differ_in_status_counterexample:
  "authenticateToken (\<lambda>t. None) None (Some ''Bearer expired.token'') admin_only
     = Inl (failure 403 ''Invalid or expired token'')
   \<and> authenticateToken sample_verify None (Some ''Bearer iiiiiii'') admin_only
     = Inl (failure 403 ''User not found'')
   \<and> fst (failure 403 ''Invalid or expired token'') = fst (failure 403 ''User not found'')"
  by code_simp

section \<open>Registration and the administrator gate\<close>









section \<open>The password hash stays out of the responses\<close>

text \<open>The \<^verbatim>\<open>user\<close> object of a response, where there is one, has the columns the handler
  lets through.\<close>

lemma user_keys_failure [simp]: "user_keys (failure code msg) = []"
  by (simp add: failure_def)

lemma keys_omit: "k \<notin> set (map fst (omit k obj))"
  by (auto simp: omit_def)

lemma register_user_keys:
  "user_keys (fst (register hash sign fault now b s)) = []
   \<or> user_keys (fst (register hash sign fault now b s))
       = [''id'', ''name'', ''email'', ''role'', ''created_at'']"
  by (simp add: register_def Let_def user_public_columns_def
        split: prod.splits sum.splits list.splits)

lemma login_user_keys:
  "user_keys (login compare sign fault b s) = []
   \<or> user_keys (login compare sign fault b s)
       = [''id'', ''name'', ''email'', ''role'', ''created_at'']"
  by (simp add: login_def user_columns_def omit_def split: sum.splits list.splits)

lemma profile_user_keys:
  "user_keys (profile fault u s) = []
   \<or> user_keys (profile fault u s)
       = [''id'', ''name'', ''email'', ''role'', ''created_at'', ''enrollment_count'']"
  by (simp add: profile_def user_columns_def omit_def split: sum.splits list.splits prod.splits)

lemma authenticateToken_Inl:
  "authenticateToken verify fault h s = Inl r \<Longrightarrow> user_keys r = []"
  by (auto simp: authenticateToken_def Let_def split: if_splits option.splits sum.splits list.splits)

lemma get_users_profile_user_keys:
  "user_keys (get_users_profile verify fault_mw fault h s) = []
   \<or> user_keys (get_users_profile verify fault_mw fault h s)
       = [''id'', ''name'', ''email'', ''role'', ''created_at'', ''enrollment_count'']"
  using profile_user_keys
  by (auto simp: get_users_profile_def split: sum.splits dest: authenticateToken_Inl)

text \<open>The responses do not depend on the hashes: registration answers the same whatever
  text \<^verbatim>\<open>bcrypt.hash\<close> returns and whatever hashes are stored, the profile answers the
  same when the stored hashes are replaced, and login reads the stored hash only to hand
  it to \<^verbatim>\<open>bcrypt.compare\<close>.\<close>

lemma register_response_ignores_hash:
  assumes "pg_text_ok (hash (or_default (reg_password b) []))
             = pg_text_ok (hash' (or_default (reg_password b) []))"
  shows "fst (register hash sign fault now b s) = fst (register hash' sign fault now b s)"
  using assms
  by (simp add: register_def Let_def query_def select_user_by_email_def insert_user_def
       split: option.splits)

lemma omit_password_rewrite:
  "omit ''password'' (user_columns (r\<lparr>u_password := h\<rparr>) @ extra)
     = omit ''password'' (user_columns r @ extra)"
  by (simp add: omit_def user_columns_def)

lemma omit_password_rewrite0:
  "omit ''password'' (user_columns (r\<lparr>u_password := h\<rparr>)) = omit ''password'' (user_columns r)"
  by (simp add: omit_def user_columns_def)

lemma filter_id_rewrite:
  "filter (\<lambda>r. u_id r = i) (map (\<lambda>r. r\<lparr>u_password := g (u_password r)\<rparr>) us)
     = map (\<lambda>r. r\<lparr>u_password := g (u_password r)\<rparr>) (filter (\<lambda>r. u_id r = i) us)"
  by (induction us) auto

lemma filter_email_rewrite:
  "filter (\<lambda>r. u_email r = e) (map (\<lambda>r. r\<lparr>u_password := g (u_password r)\<rparr>) us)
     = map (\<lambda>r. r\<lparr>u_password := g (u_password r)\<rparr>) (filter (\<lambda>r. u_email r = e) us)"
  by (induction us) auto

lemma list_ex_rewrite:
  "list_ex (\<lambda>r. u_id r = i) (map (\<lambda>r. r\<lparr>u_password := g (u_password r)\<rparr>) us)
     = list_ex (\<lambda>r. u_id r = i) us"
  "list_ex (\<lambda>r. u_email r = e) (map (\<lambda>r. r\<lparr>u_password := g (u_password r)\<rparr>) us)
     = list_ex (\<lambda>r. u_email r = e) us"
  by (induction us) auto

lemma register_ignores_stored_hashes:
  "fst (register hash sign fault now b (rewrite_passwords g s))
     = fst (register hash sign fault now b s)"
  by (cases "users s")
     (simp_all add: register_def Let_def query_def select_user_by_email_def insert_user_def
        rewrite_passwords_def filter_email_rewrite list_ex_rewrite)

lemma select_profile_rewrite:
  "fst (query fault n (select_profile i) (rewrite_passwords g s))
     = (case fst (query fault n (select_profile i) s) of
          Inl e \<Rightarrow> Inl e
        | Inr rows \<Rightarrow> Inr (map (\<lambda>(r, k). (r\<lparr>u_password := g (u_password r)\<rparr>, k)) rows))"
  by (cases "users s"; cases "auth_enrollments s")
     (simp_all add: query_def select_profile_def rewrite_passwords_def filter_id_rewrite comp_def)

lemma select_identity_rewrite:
  "fst (query fault n (select_identity i) (rewrite_passwords g s))
     = fst (query fault n (select_identity i) s)"
  by (cases "users s")
     (simp_all add: query_def select_identity_def rewrite_passwords_def filter_id_rewrite comp_def)

lemma select_user_by_email_rewrite:
  "fst (query fault n (select_user_by_email e) (rewrite_passwords g s))
     = (case fst (query fault n (select_user_by_email e) s) of
          Inl err \<Rightarrow> Inl err
        | Inr rows \<Rightarrow> Inr (map (\<lambda>r. r\<lparr>u_password := g (u_password r)\<rparr>) rows))"
  by (cases "users s")
     (simp_all add: query_def select_user_by_email_def rewrite_passwords_def filter_email_rewrite)

lemma profile_ignores_hashes:
  "profile fault u (rewrite_passwords g s) = profile fault u s"
  by (simp add: profile_def select_profile_rewrite omit_password_rewrite
        split: sum.splits list.splits prod.splits)

lemma authenticateToken_ignores_hashes:
  "authenticateToken verify fault h (rewrite_passwords g s) = authenticateToken verify fault h s"
  by (simp add: authenticateToken_def select_identity_rewrite Let_def split: option.splits)

lemma get_users_profile_ignores_hashes:
  "get_users_profile verify fault_mw fault h (rewrite_passwords g s)
     = get_users_profile verify fault_mw fault h s"
  by (simp add: get_users_profile_def authenticateToken_ignores_hashes profile_ignores_hashes
        split: sum.splits)

lemma login_reads_hash_to_compare_only:
  "login compare sign fault b (rewrite_passwords g s)
     = login (\<lambda>pw h. compare pw (g h)) sign fault b s"
  by (simp add: login_def select_user_by_email_rewrite omit_password_rewrite0
        split: sum.splits list.splits)

text \<open>
  Claim C10.  Whatever the request, the database and the failing query, the \<^verbatim>\<open>user\<close>
  object in the response of register, of login and of the profile route has no
  \<^verbatim>\<open>password\<close> field; and no hash reaches any other part of a response.  The answer of
  register is the same for every hash function whose result the database accepts as
  text, and the same after the stored hashes are replaced; the answer of the profile
  route is the same after the stored hashes are replaced; and login uses the stored
  hash as the argument of the comparison and nowhere else.
\<close>

theorem responses_omit_password:
  "''password'' \<notin> set (user_keys (fst (register hash sign fault now rb s)))
   \<and> ''password'' \<notin> set (user_keys (login compare sign fault lb s))
   \<and> ''password'' \<notin> set (user_keys (get_users_profile verify fault_mw fault h s))
   \<and> (pg_text_ok (hash (or_default (reg_password rb) []))
         = pg_text_ok (hash' (or_default (reg_password rb) [])) \<longrightarrow>
       fst (register hash sign fault now rb s) = fst (register hash' sign fault now rb s))
   \<and> fst (register hash sign fault now rb (rewrite_passwords g s))
       = fst (register hash sign fault now rb s)
   \<and> login compare sign fault lb (rewrite_passwords g s)
       = login (\<lambda>pw stored. compare pw (g stored)) sign fault lb s
   \<and> get_users_profile verify fault_mw fault h (rewrite_passwords g s)
       = get_users_profile verify fault_mw fault h s"
proof -
  have "''password'' \<notin> set (user_keys (fst (register hash sign fault now rb s)))"
    using register_user_keys [of hash sign fault now rb s] by auto
  moreover have "''password'' \<notin> set (user_keys (login compare sign fault lb s))"
    using login_user_keys [of compare sign fault lb s] by auto
  moreover have "''password'' \<notin> set (user_keys (get_users_profile verify fault_mw fault h s))"
    using get_users_profile_user_keys [of verify fault_mw fault h s] by auto
  moreover have "fst (register hash sign fault now rb s) = fst (register hash' sign fault now rb s)"
    if "pg_text_ok (hash (or_default (reg_password rb) []))
          = pg_text_ok (hash' (or_default (reg_password rb) []))"
    using that by (rule register_response_ignores_hash)
  ultimately show ?thesis
    by (simp add: register_ignores_stored_hashes login_reads_hash_to_compare_only
          get_users_profile_ignores_hashes)
qed

text \<open>Two hash functions on the request of the self-made administrator, and the stored
  hash of the seeded administrator replaced: the answers are 201 and the same.\<close>

theorem responses_omit_password_witness:
  "fst (fst (register sample_hash sample_sign None 5 admin_request admin_only)) = 201
   \<and> fst (register sample_hash sample_sign None 5 admin_request admin_only)
       = fst (register (\<lambda>pw. ''$2a$10$another.hash'') sample_sign None 5 admin_request admin_only)
   \<and> fst (register sample_hash sample_sign None 5 admin_request
             (rewrite_passwords (\<lambda>stored. ''replaced'') admin_only))
       = fst (register sample_hash sample_sign None 5 admin_request admin_only)"
proof -
  have ok: "fst (fst (register sample_hash sample_sign None 5 admin_request admin_only)) = 201"
    by code_simp
  have valid: "pg_text_ok (sample_hash (or_default (reg_password admin_request) []))
        = pg_text_ok ((\<lambda>pw. ''$2a$10$another.hash'') (or_default (reg_password admin_request) []))"
    by code_simp
  show ?thesis
    using responses_omit_password [where hash = sample_hash and sign = sample_sign
        and fault = None and now = 5 and rb = admin_request and s = admin_only
        and hash' = "\<lambda>pw. ''$2a$10$another.hash''" and g = "\<lambda>stored. ''replaced''"]
      ok valid
    by simp
qed

end
